theory Spec2Isabelle
  imports Complex_Main
begin

section \<open>JavaScript values\<close>

text \<open>
  The handlers of \<^verbatim>\<open>server.js\<close> read \<^verbatim>\<open>req.body\<close>, which
  \<^verbatim>\<open>express.json()\<close> fills with the result of \<^verbatim>\<open>JSON.parse\<close>. A number is
  therefore a finite double or, for a literal such as \<^verbatim>\<open>1e999\<close>, an infinity;
  \<^verbatim>\<open>JSON.parse\<close> never yields NaN, so the type has no NaN. A finite double is carried
  by its exact rational value, which decides every comparison with a constant the way the
  double does. \<open>JUndefined\<close> is the value of a property that is absent.
  A string is the list of the bytes of its UTF-8 encoding, an unpaired surrogate as the
  three bytes of its code point, so every JavaScript string has its value in the type
  and two strings are equal when their lists are; the characters of ASCII are the bytes
  below 128.
\<close>

datatype jsnum = Finite rat | PosInf | NegInf

datatype jsval =
    JUndefined
  | JNull
  | JBool bool
  | JNum jsnum
  | JStr string
  | JArr "jsval list"
  | JObj "(string \<times> jsval) list"

text \<open>\<^verbatim>\<open>!v\<close> is \<open>\<not> truthy v\<close>.\<close>

fun truthy :: "jsval \<Rightarrow> bool" where
  "truthy JUndefined = False"
| "truthy JNull = False"
| "truthy (JBool b) = b"
| "truthy (JNum n) = (n \<noteq> Finite 0)"
| "truthy (JStr s) = (s \<noteq> [])"
| "truthy (JArr xs) = True"
| "truthy (JObj kvs) = True"

fun typeof :: "jsval \<Rightarrow> string" where
  "typeof JUndefined = ''undefined''"
| "typeof JNull = ''object''"
| "typeof (JBool b) = ''boolean''"
| "typeof (JNum n) = ''number''"
| "typeof (JStr s) = ''string''"
| "typeof (JArr xs) = ''object''"
| "typeof (JObj kvs) = ''object''"

text \<open>
  \<^verbatim>\<open>v?.k\<close> for the property names the handlers use (none of them is a built-in
  property of a string or an array): the value stored under \<open>k\<close> in an object, and
  \<^verbatim>\<open>undefined\<close> for everything else. The association list is the parsed object, each
  key once. A plain \<^verbatim>\<open>v.k\<close> throws on \<^verbatim>\<open>undefined\<close> and \<^verbatim>\<open>null\<close>; the
  handlers below write that branch out.
\<close>

fun js_prop :: "jsval \<Rightarrow> string \<Rightarrow> jsval" where
  "js_prop (JObj kvs) k = (case map_of kvs k of Some v \<Rightarrow> v | None \<Rightarrow> JUndefined)"
| "js_prop v k = JUndefined"

text \<open>\<^verbatim>\<open>a || b\<close>\<close>

definition js_or :: "jsval \<Rightarrow> jsval \<Rightarrow> jsval" where
  "js_or a b = (if truthy a then a else b)"

section \<open>Built-ins of the language\<close>

text \<open>
  Two built-ins of ECMAScript rest on tables that are not code of this repository: the
  decimal rendering of a number (\<^verbatim>\<open>Number::toString\<close>) and the upper-case mapping of
  Unicode for a string that has a character outside ASCII. They are the two fields of
  the parameter \<open>es\<close>, and no theorem below assumes anything of them.
\<close>

record ecmascript =
  number_toString :: "jsnum \<Rightarrow> string"
  unicode_upper :: "string \<Rightarrow> string"

fun join_comma :: "string list \<Rightarrow> string" where
  "join_comma [] = []"
| "join_comma [s] = s"
| "join_comma (s # t # ss) = s @ '','' @ join_comma (t # ss)"

text \<open>
  \<^verbatim>\<open>String(v)\<close>, or \<open>None\<close> where it throws a TypeError. For an object the
  conversion calls the \<^verbatim>\<open>toString\<close> property: a parsed object inherits the one that
  returns \<^verbatim>\<open>[object Object]\<close>, unless it has a key \<^verbatim>\<open>toString\<close> of its own, whose
  value is never a function, and then the conversion throws. An array joins the
  conversions of its elements with commas, \<^verbatim>\<open>null\<close> and \<^verbatim>\<open>undefined\<close> giving
  the empty string, and throws where an element does.
\<close>

fun js_String :: "ecmascript \<Rightarrow> jsval \<Rightarrow> string option" where
  "js_String es JUndefined = Some ''undefined''"
| "js_String es JNull = Some ''null''"
| "js_String es (JBool b) = Some (if b then ''true'' else ''false'')"
| "js_String es (JNum n) = Some (number_toString es n)"
| "js_String es (JStr s) = Some s"
| "js_String es (JArr xs) =
     map_option join_comma
       (those (map (\<lambda>x. if x = JUndefined \<or> x = JNull then Some [] else js_String es x) xs))"
| "js_String es (JObj kvs) =
     (if ''toString'' \<in> set (map fst kvs) then None else Some ''[object Object]'')"

text \<open>
  \<^verbatim>\<open>toUpperCase\<close>. On a string of ASCII characters it maps the letters a to z to
  A to Z and leaves the other characters; on any other string the result is given by
  the tables of Unicode.
\<close>

definition toUpperCase_char :: "char \<Rightarrow> char" where
  "toUpperCase_char c =
     (let n = (of_char c :: nat) in if 97 \<le> n \<and> n \<le> 122 then char_of (n - 32) else c)"

definition ascii :: "char \<Rightarrow> bool" where
  "ascii c = ((of_char c :: nat) < 128)"

definition toUpperCase :: "ecmascript \<Rightarrow> string \<Rightarrow> string" where
  "toUpperCase es s =
     (if list_all ascii s then map toUpperCase_char s else unicode_upper es s)"

text \<open>
  The character class \<^verbatim>\<open>[0-9A-F]\<close>. The regular expression works on UTF-16 code
  units and the model on bytes: a character outside ASCII is one or two code units, none
  of them in the class, and two to four bytes, none of them in the class.
\<close>

definition hex_upper :: "char \<Rightarrow> bool" where
  "hex_upper c = (c \<in> set ''0123456789ABCDEF'')"

text \<open>
  \<^verbatim>\<open>trim\<close> removes, at both ends, the white space and the line terminators of
  ECMAScript: U+0009 to U+000D, U+0020, U+00A0, U+1680, U+2000 to U+200A, U+2028,
  U+2029, U+202F, U+205F, U+3000 and U+FEFF, here in UTF-8.
\<close>

definition js_whitespace :: "string list" where
  "js_whitespace =
     map (map char_of)
       [[9], [10], [11], [12], [13], [32], [194, 160], [225, 154, 128],
        [226, 128, 128], [226, 128, 129], [226, 128, 130], [226, 128, 131],
        [226, 128, 132], [226, 128, 133], [226, 128, 134], [226, 128, 135],
        [226, 128, 136], [226, 128, 137], [226, 128, 138],
        [226, 128, 168], [226, 128, 169], [226, 128, 175], [226, 129, 159],
        [227, 128, 128], [239, 187, 191 :: nat]]"

definition strip :: "string list \<Rightarrow> string \<Rightarrow> string option" where
  "strip ws s =
     map_option (\<lambda>w. drop (length w) s) (find (\<lambda>w. w \<noteq> [] \<and> take (length w) s = w) ws)"

function trim_with :: "string list \<Rightarrow> string \<Rightarrow> string" where
  "trim_with ws s = (case strip ws s of None \<Rightarrow> s | Some r \<Rightarrow> trim_with ws r)"
  by pat_completeness auto
termination
proof (relation "measure (\<lambda>(ws, s). length s)")
  show "wf (measure (\<lambda>(ws :: string list, s :: string). length s))"
    by simp
next
  fix ws :: "string list" and s r :: string
  assume "strip ws s = Some r"
  then obtain w where w: "find (\<lambda>w. w \<noteq> [] \<and> take (length w) s = w) ws = Some w"
    and r: "r = drop (length w) s"
    by (auto simp: strip_def)
  from w have ne: "w \<noteq> []" and tk: "take (length w) s = w"
    by (auto simp: find_Some_iff)
  from tk have "length (take (length w) s) = length w"
    by simp
  then have "length w \<le> length s"
    by simp
  with ne r have "length r < length s"
    by (cases w) auto
  then show "((ws, r), (ws, s)) \<in> measure (\<lambda>(ws, s). length s)"
    by simp
qed

definition js_trim :: "string \<Rightarrow> string" where
  "js_trim s = rev (trim_with (map rev js_whitespace) (rev (trim_with js_whitespace s)))"

section \<open>Utilities of the validating variant\<close>

text \<open>
  \<^verbatim>\<open>
  function normalizarDevEui(raw) {
    if (!raw) return null;
    return String(raw).toUpperCase().replace(/[^0-9A-F]/g, "");
  }
  \<close>
  \<open>None\<close> is the TypeError of \<^verbatim>\<open>String(raw)\<close>.
\<close>

definition normalizarDevEui :: "ecmascript \<Rightarrow> jsval \<Rightarrow> jsval option" where
  "normalizarDevEui es raw =
     (if \<not> truthy raw then Some JNull
      else case js_String es raw of
        None \<Rightarrow> None
      | Some s \<Rightarrow> Some (JStr (filter hex_upper (toUpperCase es s))))"

text \<open>\<^verbatim>\<open>x < c\<close> and \<^verbatim>\<open>x > c\<close> for a number \<open>x\<close> and a finite constant \<open>c\<close>.\<close>

fun num_lt :: "jsnum \<Rightarrow> rat \<Rightarrow> bool" where
  "num_lt (Finite q) c = (q < c)"
| "num_lt PosInf c = False"
| "num_lt NegInf c = True"

fun num_gt :: "jsnum \<Rightarrow> rat \<Rightarrow> bool" where
  "num_gt (Finite q) c = (q > c)"
| "num_gt PosInf c = True"
| "num_gt NegInf c = False"

text \<open>
  \<^verbatim>\<open>typeof v !== "number" || v < lo || v > hi\<close>: the comparisons are reached for
  numbers only, since \<^verbatim>\<open>||\<close> stops at the first true operand.
\<close>

definition fuera :: "jsval \<Rightarrow> rat \<Rightarrow> rat \<Rightarrow> bool" where
  "fuera v lo hi =
     (typeof v \<noteq> ''number'' \<or>
      (case v of JNum n \<Rightarrow> num_lt n lo \<or> num_gt n hi | _ \<Rightarrow> False))"

text \<open>
  \<^verbatim>\<open>
  function lecturaValida(t, h, i) {
    if (typeof t !== "number" || t < -40 || t > 85) return false;
    if (typeof h !== "number" || h < 0 || h > 100) return false;
    if (typeof i !== "number" || i < 0 || i > 120) return false;
    return true;
  }
  \<close>
\<close>

definition lecturaValida :: "jsval \<Rightarrow> jsval \<Rightarrow> jsval \<Rightarrow> bool" where
  "lecturaValida t h i =
     (if fuera t (-40) 85 then False
      else if fuera h 0 100 then False
      else if fuera i 0 120 then False
      else True)"

section \<open>HTTP responses\<close>

text \<open>
  \<^verbatim>\<open>res.send(text)\<close> and \<^verbatim>\<open>res.json(value)\<close>, with the status set by
  \<^verbatim>\<open>res.status\<close> (200 when the handler sets none).
\<close>

datatype http_body = Send string | Json jsval

record response =
  status :: nat
  body :: http_body

definition send :: "nat \<Rightarrow> string \<Rightarrow> response" where
  "send code text = \<lparr>status = code, body = Send text\<rparr>"

definition json :: "nat \<Rightarrow> (string \<times> jsval) list \<Rightarrow> response" where
  "json code kvs = \<lparr>status = code, body = Json (JObj kvs)\<rparr>"

definition json_error :: "nat \<Rightarrow> string \<Rightarrow> response" where
  "json_error code msg = json code [(''error'', JStr msg)]"

section \<open>The relational store\<close>

text \<open>
  The tables \<^verbatim>\<open>sensores\<close> and \<^verbatim>\<open>mediciones\<close>, with the columns the statements of
  \<^verbatim>\<open>server.js\<close> name. A nullable column is an \<open>option\<close>; a table is the list of
  its rows in insertion order. \<open>auto_increment\<close> is the id the next
  \<^verbatim>\<open>INSERT INTO sensores\<close> receives. A value of a column of \<^verbatim>\<open>mediciones\<close>
  is \<^verbatim>\<open>NULL\<close>, a number or a string.
\<close>

datatype sqlval = SNull | SNum rat | SStr string

record sensor =
  id_sensor :: nat
  nombre_sensor :: string
  id_granja :: "nat option"
  dev_eui :: "string option"
  modelo :: "string option"
  area :: "string option"
  zona :: "string option"
  sala :: "string option"
  modo :: "string option"
  umbral_ith :: "int option"
  dev_id :: "string option"
  app_id :: "string option"
  device_id :: "string option"
  updated_at :: "nat option"

record medicion =
  m_id_sensor :: "nat option"
  temperatura :: sqlval
  humedad :: sqlval
  ith :: sqlval

record db =
  sensores :: "sensor list"
  mediciones :: "medicion list"
  auto_increment :: nat

text \<open>
  A call to the store either returns or throws. \<open>ER_DUP_ENTRY\<close> is the code the handlers
  test for; \<open>ER_OTHER\<close> stands for every other failure (a lost connection, a timeout).
  Failures that come from outside the tables are injected: \<open>f k\<close> is the error, if any,
  that the \<open>k\<close>-th call of a handler to the pool or the connection meets.
\<close>

datatype db_error = ER_DUP_ENTRY | ER_OTHER

type_synonym faults = "nat \<Rightarrow> db_error option"

definition no_faults :: faults where
  "no_faults = (\<lambda>k. None)"

text \<open>
  Modelled from the spec: the schema of \<^verbatim>\<open>sensores\<close> is not in the repository. The
  spec gives the column \<^verbatim>\<open>dev_eui\<close> a uniqueness constraint ("at most one Sensor row
  per non-null EUI value"), and the comment in \<^verbatim>\<open>POST /sensores\<close> relies on it
  ("Si dev_eui duplicado (UNIQUE), MySQL lanzara error"). An insert whose non-null EUI
  is already stored fails with \<open>ER_DUP_ENTRY\<close> and changes nothing. A column the
  statement does not name is left null. Strings are compared character by character.
\<close>

definition new_sensor :: "nat \<Rightarrow> string \<Rightarrow> string option \<Rightarrow> nat option \<Rightarrow> sensor" where
  "new_sensor i nombre eui granja =
     \<lparr>id_sensor = i, nombre_sensor = nombre, id_granja = granja, dev_eui = eui,
      modelo = None, area = None, zona = None, sala = None, modo = None,
      umbral_ith = None, dev_id = None, app_id = None, device_id = None,
      updated_at = None\<rparr>"

definition insert_sensor ::
  "string \<Rightarrow> string option \<Rightarrow> nat option \<Rightarrow> db \<Rightarrow> db_error + (nat \<times> db)" where
  "insert_sensor nombre eui granja d =
     (if eui \<noteq> None \<and> eui \<in> set (map dev_eui (sensores d)) then Inl ER_DUP_ENTRY
      else Inr (auto_increment d,
        d\<lparr>sensores := sensores d @ [new_sensor (auto_increment d) nombre eui granja],
          auto_increment := Suc (auto_increment d)\<rparr>))"

text \<open>\<^verbatim>\<open>SELECT id_sensor FROM sensores WHERE dev_eui = ?\<close>\<close>

definition select_id_sensor :: "string \<Rightarrow> db \<Rightarrow> nat list" where
  "select_id_sensor devEui d =
     map id_sensor (filter (\<lambda>s. dev_eui s = Some devEui) (sensores d))"

text \<open>\<^verbatim>\<open>UPDATE sensores SET ... WHERE ...\<close> and the number of rows it matches.\<close>

definition sql_update :: "(sensor \<Rightarrow> bool) \<Rightarrow> (sensor \<Rightarrow> sensor) \<Rightarrow> sensor list \<Rightarrow> sensor list" where
  "sql_update wh st rows = map (\<lambda>s. if wh s then st s else s) rows"

definition affectedRows :: "(sensor \<Rightarrow> bool) \<Rightarrow> sensor list \<Rightarrow> nat" where
  "affectedRows wh rows = length (filter wh rows)"

text \<open>\<^verbatim>\<open>COALESCE(?, col)\<close> and \<^verbatim>\<open>NULLIF(?, '')\<close>.\<close>

definition coalesce :: "'a option \<Rightarrow> 'a option \<Rightarrow> 'a option" where
  "coalesce p c = (case p of None \<Rightarrow> c | Some v \<Rightarrow> Some v)"

definition nullif_empty :: "string option \<Rightarrow> string option" where
  "nullif_empty p = (if p = Some [] then None else p)"

text \<open>
  The pool of \<^verbatim>\<open>mysql.createPool\<close> with \<^verbatim>\<open>connectionLimit: 10\<close> and
  \<^verbatim>\<open>waitForConnections: true\<close>, as the number of connections that are leased.
  \<^verbatim>\<open>getConnection\<close> returns \<open>None\<close> when it waits for a connection that no
  running handler will release.
\<close>

definition connectionLimit :: nat where
  "connectionLimit = 10"

definition getConnection :: "db_error option \<Rightarrow> nat \<Rightarrow> (db_error + nat) option" where
  "getConnection fault leased =
     (if connectionLimit \<le> leased then None
      else case fault of Some e \<Rightarrow> Some (Inl e) | None \<Rightarrow> Some (Inr (Suc leased)))"

definition release :: "nat \<Rightarrow> nat" where
  "release leased = leased - 1"

section \<open>GET /health\<close>

text \<open>
  \<^verbatim>\<open>
  app.get("/health", async (_req, res) => {
    try {
      const conn = await pool.getConnection();
      await conn.ping();
      conn.release();
      res.json({ ok: true });
    } catch (e) {
      console.error(e);
      res.status(500).json({ ok: false, error: "DB ping failed" });
    }
  });
  \<close>
  The handler is the same in the four variants of the file. Call 0 is
  \<^verbatim>\<open>getConnection\<close>, call 1 is \<^verbatim>\<open>ping\<close>. The result is the response, if there is
  one, and the number of leased connections the handler leaves.
\<close>

definition ping_failed :: response where
  "ping_failed = json 500 [(''ok'', JBool False), (''error'', JStr ''DB ping failed'')]"

definition health :: "faults \<Rightarrow> nat \<Rightarrow> response option \<times> nat" where
  "health f leased =
     (case getConnection (f 0) leased of
        None \<Rightarrow> (None, leased)
      | Some (Inl e) \<Rightarrow> (Some ping_failed, leased)
      | Some (Inr conn) \<Rightarrow>
          (case f 1 of
             Some e \<Rightarrow> (Some ping_failed, conn)
           | None \<Rightarrow> (Some (json 200 [(''ok'', JBool True)]), release conn)))"

section \<open>Device registry\<close>

text \<open>
  \<^verbatim>\<open>
  async function getOrCreateSensorByDevEui(devEui) {
    const [rows] = await pool.query(
      "SELECT id_sensor FROM sensores WHERE dev_eui = ?", [devEui]);
    if (rows.length) return rows[0].id_sensor;
    const [ins] = await pool.query(
      "INSERT INTO sensores (nombre_sensor, dev_eui, id_granja) VALUES (?, ?, ?)",
      [`TTN-${devEui}`, devEui, null]);
    return ins.insertId;
  }
  \<close>
  Call 0 is the SELECT, call 1 the INSERT. The function gives up control at each
  \<^verbatim>\<open>await\<close>, so another request can change the store between the two statements:
  \<open>getOrCreate_resume\<close> is the function from the point where the SELECT has returned
  \<open>rows\<close>, run on the store as it is by then. With no request in between, that store
  is the one the SELECT read.
\<close>

definition getOrCreate_resume :: "faults \<Rightarrow> string \<Rightarrow> nat list \<Rightarrow> db \<Rightarrow> db_error + (nat \<times> db)" where
  "getOrCreate_resume f devEui rows d =
     (case rows of
        i # _ \<Rightarrow> Inr (i, d)
      | [] \<Rightarrow>
          (case f 1 of
             Some e \<Rightarrow> Inl e
           | None \<Rightarrow> insert_sensor (''TTN-'' @ devEui) (Some devEui) None d))"

definition getOrCreateSensorByDevEui :: "faults \<Rightarrow> string \<Rightarrow> db \<Rightarrow> db_error + (nat \<times> db)" where
  "getOrCreateSensorByDevEui f devEui d =
     (case f 0 of
        Some e \<Rightarrow> Inl e
      | None \<Rightarrow> getOrCreate_resume f devEui (select_id_sensor devEui d) d)"

section \<open>The client of the store\<close>

text \<open>
  \<^verbatim>\<open>pool.query(sql, values)\<close> and \<^verbatim>\<open>conn.query(sql, values)\<close> of mysql2 write the
  parameters into the text of the statement before they send it (\<^verbatim>\<open>format\<close> of
  sqlstring, with \<^verbatim>\<open>stringifyObjects\<close> off): each \<^verbatim>\<open>?\<close> is replaced by
  \<^verbatim>\<open>escape(value)\<close>,
  \<^verbatim>\<open>
  escape(val, stringifyObjects):
    undefined, null -> NULL
    boolean         -> true, false
    number          -> val + ''
    string          -> the quoted string
    array           -> arrayToList(val): the elements joined by ', ', a nested array as
                       '(' + arrayToList(v) + ')', any other element as escape(v, true)
    object          -> stringifyObjects ? the quoted val.toString()
                       : objectToValues(val): for each key, escapeId(key) + ' = ' +
                         escape(value, true), joined by ', '
  \<close>
  so that a parameter is written as a list of expressions separated by commas: one
  expression for a scalar, any number of them for an array or an object. \<open>EIgual k e\<close> is
  the text \<^verbatim>\<open>`k` = e\<close>, with nothing after the sign when the value of the key wrote
  nothing; \<open>k\<close> is the key as it is in the object (\<^verbatim>\<open>escapeId\<close> quotes it, and
  writes a key with a dot as a qualified name, which no definition below interprets).
  \<open>None\<close> is the TypeError of \<^verbatim>\<open>val.toString()\<close> on an object with a key
  \<^verbatim>\<open>toString\<close> of its own. The number \<^verbatim>\<open>Infinity\<close> is written as the word
  \<^verbatim>\<open>Infinity\<close>, which is a name in SQL and not a number.
\<close>

datatype sqlexp =
    ENull
  | EBool bool
  | ENum jsnum
  | EStr string
  | EParen "sqlexp list"
  | EIgual string "sqlexp option"

fun is_array :: "jsval \<Rightarrow> bool" where
  "is_array (JArr xs) = True"
| "is_array v = False"

fun escape :: "bool \<Rightarrow> jsval \<Rightarrow> sqlexp list option" where
  "escape so JUndefined = Some [ENull]"
| "escape so JNull = Some [ENull]"
| "escape so (JBool b) = Some [EBool b]"
| "escape so (JNum n) = Some [ENum n]"
| "escape so (JStr s) = Some [EStr s]"
| "escape so (JArr xs) =
     map_option concat
       (those (map (\<lambda>x. map_option (\<lambda>es. if is_array x then [EParen es] else es)
                           (escape True x)) xs))"
| "escape so (JObj kvs) =
     (if so then
        (if ''toString'' \<in> set (map fst kvs) then None else Some [EStr ''[object Object]''])
      else
        map_option concat
          (those (map (\<lambda>kv. map_option
                               (\<lambda>es. case es of
                                        [] \<Rightarrow> [EIgual (fst kv) None]
                                      | e # r \<Rightarrow> EIgual (fst kv) (Some e) # r)
                               (escape True (snd kv))) kvs)))"

text \<open>
  What the server does with a statement is outside the repository where it depends on
  the declaration of the tables or on the conversions of the server: the upper-case
  mapping of \<^verbatim>\<open>UPPER\<close> on a string that has a character outside ASCII, and the
  statements whose parameters are not written as values of the types of their columns.
  These are the fields of the parameter \<open>my\<close>; no theorem below assumes anything of
  them. The fields for the statements are named after the definitions that use them:
  the values stored by the INSERT of a measurement, if it succeeds; the outcome of the
  two UPDATE statements of the transactional update and of the UPDATE of the update by
  EUI, each on the parameters the handler binds and the rows of the table.
\<close>

record mysql =
  upper_no_ascii :: "string \<Rightarrow> string"
  insert_mediciones :: "jsval \<Rightarrow> jsval \<Rightarrow> jsval \<Rightarrow> (sqlval \<times> sqlval \<times> sqlval) option"
  update_campos_servidor :: "jsval \<Rightarrow> nat \<Rightarrow> sensor list \<Rightarrow> db_error + (nat \<times> sensor list)"
  update_dev_eui_servidor :: "jsval \<Rightarrow> jsval \<Rightarrow> sensor list \<Rightarrow> db_error + sensor list"
  update_por_dev_eui_servidor ::
    "jsval \<Rightarrow> nat \<Rightarrow> nat \<Rightarrow> sensor list \<Rightarrow> db_error + sensor list"

section \<open>POST /webhook\<close>

text \<open>
  \<^verbatim>\<open>INSERT INTO mediciones (..., temperatura, humedad, ith) VALUES (..., ?, ?, ?)\<close>.
  The statement is well formed when each of the three parameters is written as one
  expression. A parenthesised expression is the expression; parentheses around no
  expression or around several are not a value.
\<close>

fun escalar :: "sqlexp \<Rightarrow> sqlexp option" where
  "escalar (EParen [e]) = escalar e"
| "escalar (EParen es) = None"
| "escalar e = Some e"

text \<open>
  A parameter of the INSERT is written as a number (\<^verbatim>\<open>true\<close> and \<^verbatim>\<open>false\<close> are
  the numbers 1 and 0 of SQL), or as a text for which the statement fails (the driver
  throws, the parameter is not one value, or it is the name \<^verbatim>\<open>Infinity\<close>), or as
  another expression: \<^verbatim>\<open>NULL\<close>, a string, a comparison with a column.
\<close>

datatype valor = Numero rat | Falla | Otro

definition valor :: "jsval \<Rightarrow> valor" where
  "valor v =
     (case escape False v of
        Some [e] \<Rightarrow>
          (case escalar e of
             None \<Rightarrow> Falla
           | Some (ENum (Finite q)) \<Rightarrow> Numero q
           | Some (ENum PosInf) \<Rightarrow> Falla
           | Some (ENum NegInf) \<Rightarrow> Falla
           | Some (EBool b) \<Rightarrow> Numero (if b then 1 else 0)
           | Some (EIgual k None) \<Rightarrow> Falla
           | Some _ \<Rightarrow> Otro)
      | _ \<Rightarrow> Falla)"

text \<open>
  Modelled from the spec: the declaration of \<^verbatim>\<open>mediciones\<close> is not in the
  repository. The spec gives a Measurement a temperature, a relative humidity and an
  index, bounded by numbers; a column holds the number the statement gives it, and
  the column of the sensor is left null by a statement that does not name it. What is
  stored for a parameter that is not written as a number is left to the server.
\<close>

definition valores :: "mysql \<Rightarrow> jsval \<Rightarrow> jsval \<Rightarrow> jsval \<Rightarrow> (sqlval \<times> sqlval \<times> sqlval) option" where
  "valores my t h i =
     (case (valor t, valor h, valor i) of
        (Numero a, Numero b, Numero c) \<Rightarrow> Some (SNum a, SNum b, SNum c)
      | _ \<Rightarrow> insert_mediciones my t h i)"

definition insert_medicion ::
  "mysql \<Rightarrow> nat option \<Rightarrow> jsval \<Rightarrow> jsval \<Rightarrow> jsval \<Rightarrow> db \<Rightarrow> db_error + db" where
  "insert_medicion my idSensor t h i d =
     (if valor t = Falla \<or> valor h = Falla \<or> valor i = Falla then Inl ER_OTHER
      else case valores my t h i of
        None \<Rightarrow> Inl ER_OTHER
      | Some (a, b, c) \<Rightarrow>
          Inr (d\<lparr>mediciones := mediciones d @
                 [\<lparr>m_id_sensor = idSensor, temperatura = a, humedad = b, ith = c\<rparr>]\<rparr>))"

definition error_bd :: response where
  "error_bd = send 500 ''Error en base de datos''"

fun the_str :: "jsval \<Rightarrow> string" where
  "the_str (JStr s) = s"
| "the_str v = []"

text \<open>
  The validating variant (\<^verbatim>\<open>server.js\<close>, second file):
  \<^verbatim>\<open>
  app.post("/webhook", async (req, res) => {
    try {
      const up = req.body?.uplink_message;
      const devEui = normalizarDevEui(req.body?.end_device_ids?.dev_eui);
      if (!up?.decoded_payload) {
        return res.status(400).json({ error: "Payload invalido" });
      }
      if (!devEui) {
        return res.status(400).json({ error: "Falta dev_eui en el webhook" });
      }
      const { temperatura, humedad, ith } = up.decoded_payload;
      if (!lecturaValida(temperatura, humedad, ith)) {
        return res.status(422).json({ error: "Lectura fuera de rango o no numerica" });
      }
      const idSensor = await getOrCreateSensorByDevEui(devEui);
      await pool.query(
        "INSERT INTO mediciones (id_sensor, temperatura, humedad, ith) VALUES (?, ?, ?, ?)",
        [idSensor, temperatura, humedad, ith]);
      res.send("OK");
    } catch (err) {
      res.status(500).send("Error en base de datos");
    }
  });
  \<close>
  Calls 0 and 1 are those of \<open>getOrCreateSensorByDevEui\<close>, call 2 is the INSERT of the
  measurement. \<open>webhook_resume\<close> is the handler from the point where the SELECT of
  \<open>getOrCreateSensorByDevEui\<close> has returned, as \<open>getOrCreate_resume\<close> is. The
  normalizer runs first, so its TypeError is answered before the payload is looked at.
  The message of the status 422 has an e with an acute accent, two bytes in UTF-8.
\<close>

definition webhook_resume ::
  "mysql \<Rightarrow> faults \<Rightarrow> string \<Rightarrow> jsval \<Rightarrow> jsval \<Rightarrow> jsval \<Rightarrow> nat list \<Rightarrow> db \<Rightarrow> response \<times> db" where
  "webhook_resume my f devEui t h i rows d =
     (case getOrCreate_resume f devEui rows d of
        Inl e \<Rightarrow> (error_bd, d)
      | Inr (idSensor, d1) \<Rightarrow>
          (case f 2 of
             Some e \<Rightarrow> (error_bd, d1)
           | None \<Rightarrow>
               (case insert_medicion my (Some idSensor) t h i d1 of
                  Inl e \<Rightarrow> (error_bd, d1)
                | Inr d2 \<Rightarrow> (send 200 ''OK'', d2))))"

definition webhook :: "ecmascript \<Rightarrow> mysql \<Rightarrow> faults \<Rightarrow> jsval \<Rightarrow> db \<Rightarrow> response \<times> db" where
  "webhook es my f req_body d =
     (let up = js_prop req_body ''uplink_message'' in
      case normalizarDevEui es (js_prop (js_prop req_body ''end_device_ids'') ''dev_eui'') of
        None \<Rightarrow> (error_bd, d)
      | Some devEui \<Rightarrow>
         if \<not> truthy (js_prop up ''decoded_payload'') then
           (json_error 400 ''Payload invalido'', d)
         else if \<not> truthy devEui then
           (json_error 400 ''Falta dev_eui en el webhook'', d)
         else
           let payload = js_prop up ''decoded_payload'';
               t = js_prop payload ''temperatura'';
               h = js_prop payload ''humedad'';
               i = js_prop payload ''ith''
           in if \<not> lecturaValida t h i then
                (json_error 422
                   (''Lectura fuera de rango o no num'' @ map char_of [195, 169 :: nat] @ ''rica''), d)
              else
                (case f 0 of
                   Some e \<Rightarrow> (error_bd, d)
                 | None \<Rightarrow>
                     webhook_resume my f (the_str devEui) t h i
                       (select_id_sensor (the_str devEui) d) d))"

text \<open>
  The cache variant (\<^verbatim>\<open>server.js\<close>, first and third file):
  \<^verbatim>\<open>
  let lastDevEui = null;
  app.post("/webhook", async (req, res) => {
    try {
      const devEui = req.body?.end_device_ids?.dev_eui
                  || req.body?.end_device_ids?.device_id
                  || null;
      if (devEui) lastDevEui = devEui;
      const uplink = req.body.uplink_message;
      if (!uplink?.decoded_payload) {
        return res.status(400).send("Payload invalido");
      }
      const { temperatura, humedad, ith } = uplink.decoded_payload;
      await pool.query(
        "INSERT INTO mediciones (temperatura, humedad, ith) VALUES (?, ?, ?)",
        [temperatura, humedad, ith]);
      res.send("OK");
    } catch (err) {
      res.status(500).send("Error en base de datos");
    }
  });
  \<close>
  The state is the cached identifier and the store; call 0 is the INSERT.
  \<^verbatim>\<open>req.body.uplink_message\<close> throws when the body is \<^verbatim>\<open>undefined\<close> or
  \<^verbatim>\<open>null\<close>.
\<close>

definition webhook_cache ::
  "mysql \<Rightarrow> faults \<Rightarrow> jsval \<Rightarrow> jsval \<times> db \<Rightarrow> response \<times> jsval \<times> db" where
  "webhook_cache my f req_body st =
     (let lastDevEui = fst st; d = snd st;
          ids = js_prop req_body ''end_device_ids'';
          devEui = js_or (js_or (js_prop ids ''dev_eui'') (js_prop ids ''device_id'')) JNull;
          lastDevEui1 = (if truthy devEui then devEui else lastDevEui)
      in if req_body = JUndefined \<or> req_body = JNull then (error_bd, lastDevEui1, d)
         else
           let uplink = js_prop req_body ''uplink_message'' in
           if \<not> truthy (js_prop uplink ''decoded_payload'') then
             (send 400 ''Payload invalido'', lastDevEui1, d)
           else
             let payload = js_prop uplink ''decoded_payload'';
                 t = js_prop payload ''temperatura'';
                 h = js_prop payload ''humedad'';
                 i = js_prop payload ''ith''
             in (case f 0 of
                   Some e \<Rightarrow> (error_bd, lastDevEui1, d)
                 | None \<Rightarrow>
                     (case insert_medicion my None t h i d of
                        Inl e \<Rightarrow> (error_bd, lastDevEui1, d)
                      | Inr d1 \<Rightarrow> (send 200 ''OK'', lastDevEui1, d1))))"

text \<open>
  The early variant (\<^verbatim>\<open>part_000\<close>) is the cache variant without the cache:
  \<^verbatim>\<open>
  app.post("/webhook", async (req, res) => {
    try {
      const uplink = req.body.uplink_message;
      if (!uplink?.decoded_payload) {
        return res.status(400).send("Payload invalido");
      }
      const { temperatura, humedad, ith } = uplink.decoded_payload;
      const sql = "INSERT INTO mediciones (temperatura, humedad, ith) VALUES (?, ?, ?)";
      await pool.query(sql, [temperatura, humedad, ith]);
      res.send("OK");
    } catch (err) {
      res.status(500).send("Error en base de datos");
    }
  });
  \<close>
\<close>

definition webhook_early :: "mysql \<Rightarrow> faults \<Rightarrow> jsval \<Rightarrow> db \<Rightarrow> response \<times> db" where
  "webhook_early my f req_body d =
     (if req_body = JUndefined \<or> req_body = JNull then (error_bd, d)
      else
        let uplink = js_prop req_body ''uplink_message'' in
        if \<not> truthy (js_prop uplink ''decoded_payload'') then
          (send 400 ''Payload invalido'', d)
        else
          let payload = js_prop uplink ''decoded_payload'';
              t = js_prop payload ''temperatura'';
              h = js_prop payload ''humedad'';
              i = js_prop payload ''ith''
          in (case f 0 of
                Some e \<Rightarrow> (error_bd, d)
              | None \<Rightarrow>
                  (case insert_medicion my None t h i d of
                     Inl e \<Rightarrow> (error_bd, d)
                   | Inr d1 \<Rightarrow> (send 200 ''OK'', d1))))"

section \<open>A concrete store\<close>

definition store0 :: db where
  "store0 = \<lparr>sensores = [new_sensor 1 ''establo'' (Some ''AABB'') (Some 1)],
             mediciones = [], auto_increment = 2\<rparr>"

text \<open>
  \<open>store1\<close> is \<open>store0\<close> after a first uplink of the device \<^verbatim>\<open>0C\<close>.
  \<open>uplink90\<close> is a webhook body that reports 90 degrees.
\<close>

definition store1 :: db where
  "store1 = store0\<lparr>sensores := sensores store0 @ [new_sensor 2 ''TTN-0C'' (Some ''0C'') None],
                   auto_increment := 3\<rparr>"

definition uplink :: "string \<Rightarrow> rat \<Rightarrow> rat \<Rightarrow> rat \<Rightarrow> jsval" where
  "uplink eui t h i =
     JObj [(''end_device_ids'', JObj [(''dev_eui'', JStr eui)]),
           (''uplink_message'',
              JObj [(''decoded_payload'',
                 JObj [(''temperatura'', JNum (Finite t)), (''humedad'', JNum (Finite h)),
                       (''ith'', JNum (Finite i))])])]"

definition uplink90 :: jsval where
  "uplink90 = uplink ''0c'' 90 50 50"

section \<open>PUT /api/sensores/actualizar\<close>

text \<open>
  The fields of a request at the types of the columns they are bound to: the id is a
  natural number, the threshold an integer ("int o null" in the source), the other
  fields are strings. \<open>None\<close> is a field that is absent or \<^verbatim>\<open>null\<close>, which
  \<^verbatim>\<open>x ?? null\<close> and mysql2 both bind as \<^verbatim>\<open>NULL\<close>. The id 0 and the empty string
  are the falsy values of these types. The handler is given first on such a request
  (\<open>actualizar\<close>) and then on the body as it is received, of any type
  (\<open>put_actualizar\<close>); the two agree on the bodies that have these types.
\<close>

record actualizar_body =
  b_id_sensor :: "nat option"
  b_dev_eui :: "string option"
  b_modelo :: "string option"
  b_area :: "string option"
  b_zona :: "string option"
  b_sala :: "string option"
  b_modo :: "string option"
  b_umbral_ith :: "int option"
  b_dev_id :: "string option"

definition truthy_id :: "nat option \<Rightarrow> bool" where
  "truthy_id v = (v \<noteq> None \<and> v \<noteq> Some 0)"

definition truthy_str :: "string option \<Rightarrow> bool" where
  "truthy_str v = (v \<noteq> None \<and> v \<noteq> Some [])"

subsection \<open>The transactional variant\<close>

text \<open>
  \<^verbatim>\<open>
  app.put('/api/sensores/actualizar', async (req, res) => {
    const { id_sensor, dev_eui, modelo, area, zona, sala, modo, umbral_ith, dev_id } = req.body;
    if (!id_sensor && !dev_eui) {
      return res.status(400).json({ error: 'falta_id_o_dev_eui' });
    }
    const conn = await pool.getConnection();
    try {
      await conn.beginTransaction();
      let where = '';
      let whereParam;
      if (id_sensor) { where = 'id_sensor = ?'; whereParam = id_sensor; }
      else           { where = 'dev_eui   = ?'; whereParam = dev_eui;  }
      const [r1] = await conn.query(
        `UPDATE sensores
           SET modelo     = COALESCE(?, modelo),
               area       = COALESCE(?, area),
               zona       = COALESCE(?, zona),
               sala       = COALESCE(?, sala),
               modo       = COALESCE(?, modo),
               umbral_ith = ?,
               dev_id     = COALESCE(?, dev_id),
               updated_at = NOW()
         WHERE ${where}`,
        [modelo ?? null, area ?? null, zona ?? null, sala ?? null,
         modo ?? null, (umbral_ith ?? null), dev_id ?? null, whereParam]);
      if (id_sensor && dev_eui) {
        await conn.query(
          `UPDATE sensores
             SET dev_eui = ?
           WHERE id_sensor = ?
             AND (dev_eui IS NULL OR dev_eui = '')`,
          [dev_eui, id_sensor]);
      }
      await conn.commit();
      res.json({ ok: true, affected: r1.affectedRows });
    } catch (e) {
      await conn.rollback();
      if (e.code === 'ER_DUP_ENTRY') {
        return res.status(409).json({ error: 'dev_eui_duplicado' });
      }
      res.status(500).json({ error: 'db_error' });
    } finally {
      conn.release();
    }
  });
  \<close>
  \<open>now\<close> is the value of \<^verbatim>\<open>NOW()\<close>.
\<close>

definition set_campos :: "nat \<Rightarrow> actualizar_body \<Rightarrow> sensor \<Rightarrow> sensor" where
  "set_campos now b s =
     s\<lparr>modelo := coalesce (b_modelo b) (modelo s),
       area := coalesce (b_area b) (area s),
       zona := coalesce (b_zona b) (zona s),
       sala := coalesce (b_sala b) (sala s),
       modo := coalesce (b_modo b) (modo s),
       umbral_ith := b_umbral_ith b,
       dev_id := coalesce (b_dev_id b) (dev_id s),
       updated_at := Some now\<rparr>"

definition where_actualizar :: "actualizar_body \<Rightarrow> sensor \<Rightarrow> bool" where
  "where_actualizar b s =
     (if truthy_id (b_id_sensor b) then Some (id_sensor s) = b_id_sensor b
      else (case b_dev_eui b of None \<Rightarrow> False | Some e \<Rightarrow> dev_eui s = Some e))"

text \<open>
  Modelled from the spec: the uniqueness constraint on \<^verbatim>\<open>dev_eui\<close>, which the
  repository's statements rely on and its missing schema declares. The back-link
  \<^verbatim>\<open>UPDATE sensores SET dev_eui = ? WHERE id_sensor = ? AND (dev_eui IS NULL OR dev_eui = '')\<close>
  fails with \<open>ER_DUP_ENTRY\<close> when it would store the EUI in a second row.
\<close>

definition sin_dev_eui :: "nat \<Rightarrow> sensor \<Rightarrow> bool" where
  "sin_dev_eui i s = (id_sensor s = i \<and> (dev_eui s = None \<or> dev_eui s = Some []))"

definition update_dev_eui :: "string \<Rightarrow> nat \<Rightarrow> sensor list \<Rightarrow> db_error + sensor list" where
  "update_dev_eui e i rows =
     (let rows1 = sql_update (sin_dev_eui i) (\<lambda>s. s\<lparr>dev_eui := Some e\<rparr>) rows
      in if filter (sin_dev_eui i) rows \<noteq> []
            \<and> 1 < length (filter (\<lambda>s. dev_eui s = Some e) rows1)
         then Inl ER_DUP_ENTRY
         else Inr rows1)"

text \<open>
  The \<^verbatim>\<open>try\<close> block on the rows of the table: the error it throws, or the number of
  rows the first UPDATE matched and the rows to commit. Call 1 is
  \<^verbatim>\<open>beginTransaction\<close>, call 2 the UPDATE of the fields, call 3 the back-link, call 4
  \<^verbatim>\<open>commit\<close>.
\<close>

definition actualizar_try ::
  "faults \<Rightarrow> nat \<Rightarrow> actualizar_body \<Rightarrow> sensor list \<Rightarrow> db_error + (nat \<times> sensor list)" where
  "actualizar_try f now b rows =
     (case f 1 of
        Some e \<Rightarrow> Inl e
      | None \<Rightarrow>
     (case f 2 of
        Some e \<Rightarrow> Inl e
      | None \<Rightarrow>
          let affected = affectedRows (where_actualizar b) rows;
              rows1 = sql_update (where_actualizar b) (set_campos now b) rows
          in (case (if truthy_id (b_id_sensor b) \<and> truthy_str (b_dev_eui b)
                    then (case f 3 of
                            Some e \<Rightarrow> Inl e
                          | None \<Rightarrow> update_dev_eui (the (b_dev_eui b)) (the (b_id_sensor b)) rows1)
                    else Inr rows1) of
                Inl e \<Rightarrow> Inl e
              | Inr rows2 \<Rightarrow>
                  (case f 4 of
                     Some e \<Rightarrow> Inl e
                   | None \<Rightarrow> Inr (affected, rows2)))))"

text \<open>
  The handler on the store and the number of leased connections. Call 0 is
  \<^verbatim>\<open>getConnection\<close>, which is outside the \<^verbatim>\<open>try\<close> block: when it throws, or waits
  for ever, the handler sends no response. Call 5 is \<^verbatim>\<open>rollback\<close>, which is inside the
  \<^verbatim>\<open>catch\<close> block: when it throws, no response is sent either. Nothing of a
  transaction that is not committed reaches the store.
\<close>

definition actualizar ::
  "faults \<Rightarrow> nat \<Rightarrow> actualizar_body \<Rightarrow> db \<times> nat \<Rightarrow> response option \<times> db \<times> nat" where
  "actualizar f now b st =
     (let d = fst st; leased = snd st in
      if \<not> truthy_id (b_id_sensor b) \<and> \<not> truthy_str (b_dev_eui b) then
        (Some (json_error 400 ''falta_id_o_dev_eui''), d, leased)
      else
        (case getConnection (f 0) leased of
           None \<Rightarrow> (None, d, leased)
         | Some (Inl e) \<Rightarrow> (None, d, leased)
         | Some (Inr conn) \<Rightarrow>
             (case actualizar_try f now b (sensores d) of
                Inr (affected, rows2) \<Rightarrow>
                  (Some (json 200 [(''ok'', JBool True),
                                   (''affected'', JNum (Finite (of_nat affected)))]),
                   d\<lparr>sensores := rows2\<rparr>, release conn)
              | Inl e \<Rightarrow>
                  (case f 5 of
                     Some e2 \<Rightarrow> (None, d, release conn)
                   | None \<Rightarrow>
                       if e = ER_DUP_ENTRY then
                         (Some (json_error 409 ''dev_eui_duplicado''), d, release conn)
                       else (Some (json_error 500 ''db_error''), d, release conn)))))"

subsection \<open>The request as it is received\<close>

text \<open>
  \<^verbatim>\<open>req.body\<close> is any JSON value, and the handler binds its fields as they come. A
  field is of the type of its column when it is absent, \<^verbatim>\<open>null\<close>, or a string for a
  text column, an integer for the threshold, a natural number for the id. \<open>None\<close> is
  a field of another type. The declaration of the columns is not in the repository: a
  text column is taken to hold every string, and the threshold ("int o null" in the
  source) every integer of 32 bits.
\<close>

fun campo_texto :: "jsval \<Rightarrow> string option option" where
  "campo_texto JUndefined = Some None"
| "campo_texto JNull = Some None"
| "campo_texto (JStr s) = Some (Some s)"
| "campo_texto v = None"

fun campo_entero :: "jsval \<Rightarrow> int option option" where
  "campo_entero JUndefined = Some None"
| "campo_entero JNull = Some None"
| "campo_entero (JNum (Finite q)) =
     (if of_int \<lfloor>q\<rfloor> = q \<and> - (2 ^ 31) \<le> \<lfloor>q\<rfloor> \<and> \<lfloor>q\<rfloor> < 2 ^ 31
      then Some (Some \<lfloor>q\<rfloor>) else None)"
| "campo_entero v = None"

fun campo_natural :: "jsval \<Rightarrow> nat option option" where
  "campo_natural JUndefined = Some None"
| "campo_natural JNull = Some None"
| "campo_natural (JNum (Finite q)) =
     (if of_int \<lfloor>q\<rfloor> = q \<and> 0 \<le> q then Some (Some (nat \<lfloor>q\<rfloor>)) else None)"
| "campo_natural v = None"

text \<open>
  The body at the types of the columns, if all its fields are of these types: first
  the five text fields, then the threshold, then the two keys and \<^verbatim>\<open>dev_id\<close>.
  Destructuring \<^verbatim>\<open>undefined\<close> or \<^verbatim>\<open>null\<close> throws, so these two are no body.
\<close>

definition decode_textos :: "jsval \<Rightarrow> actualizar_body option" where
  "decode_textos req_body =
     (if req_body = JUndefined \<or> req_body = JNull then None
      else
        Option.bind (campo_texto (js_prop req_body ''modelo'')) (\<lambda>m.
        Option.bind (campo_texto (js_prop req_body ''area'')) (\<lambda>a.
        Option.bind (campo_texto (js_prop req_body ''zona'')) (\<lambda>z.
        Option.bind (campo_texto (js_prop req_body ''sala'')) (\<lambda>sa.
        Option.bind (campo_texto (js_prop req_body ''modo'')) (\<lambda>mo.
          Some \<lparr>b_id_sensor = None, b_dev_eui = None, b_modelo = m, b_area = a,
                b_zona = z, b_sala = sa, b_modo = mo, b_umbral_ith = None,
                b_dev_id = None\<rparr>))))))"

definition decode_campos :: "jsval \<Rightarrow> actualizar_body option" where
  "decode_campos req_body =
     Option.bind (decode_textos req_body) (\<lambda>b.
     Option.bind (campo_entero (js_prop req_body ''umbral_ith'')) (\<lambda>u.
       Some (b\<lparr>b_umbral_ith := u\<rparr>)))"

definition decode_claves :: "jsval \<Rightarrow> actualizar_body \<Rightarrow> actualizar_body option" where
  "decode_claves req_body b =
     Option.bind (campo_natural (js_prop req_body ''id_sensor'')) (\<lambda>i.
     Option.bind (campo_texto (js_prop req_body ''dev_eui'')) (\<lambda>e.
     Option.bind (campo_texto (js_prop req_body ''dev_id'')) (\<lambda>di.
       Some (b\<lparr>b_id_sensor := i, b_dev_eui := e, b_dev_id := di\<rparr>))))"

definition decode_actualizar :: "jsval \<Rightarrow> actualizar_body option" where
  "decode_actualizar req_body = Option.bind (decode_campos req_body) (decode_claves req_body)"

text \<open>
  An object bound to the bare placeholder of \<^verbatim>\<open>umbral_ith = ?\<close> is written as its
  list of pairs, so that the clause reads
  \<^verbatim>\<open>umbral_ith = `k1` = v1, `k2` = v2, ...\<close>: the threshold is assigned the truth value of
  the comparison of the column \<open>k1\<close> with \<open>v1\<close> (1, 0, or \<^verbatim>\<open>NULL\<close> when the column is
  null), and the pairs that follow are assignments of their own, made from left to right
  after it. The model gives the meaning of the clause when the first pair compares a
  numeric column with a number and the other pairs assign a string or \<^verbatim>\<open>NULL\<close> to
  nullable text columns.
\<close>

definition columna_numero :: "string \<Rightarrow> (sensor \<Rightarrow> rat option) option" where
  "columna_numero k =
     map_of
       [(''id_sensor'', \<lambda>s. Some (of_nat (id_sensor s))),
        (''id_granja'', \<lambda>s. map_option of_nat (id_granja s)),
        (''umbral_ith'', \<lambda>s. map_option of_int (umbral_ith s))] k"

definition columna_texto :: "string \<Rightarrow> (string option \<Rightarrow> sensor \<Rightarrow> sensor) option" where
  "columna_texto k =
     map_of
       [(''dev_eui'', \<lambda>v s. s\<lparr>dev_eui := v\<rparr>),
        (''modelo'', \<lambda>v s. s\<lparr>modelo := v\<rparr>),
        (''area'', \<lambda>v s. s\<lparr>area := v\<rparr>),
        (''zona'', \<lambda>v s. s\<lparr>zona := v\<rparr>),
        (''sala'', \<lambda>v s. s\<lparr>sala := v\<rparr>),
        (''modo'', \<lambda>v s. s\<lparr>modo := v\<rparr>),
        (''dev_id'', \<lambda>v s. s\<lparr>dev_id := v\<rparr>),
        (''app_id'', \<lambda>v s. s\<lparr>app_id := v\<rparr>),
        (''device_id'', \<lambda>v s. s\<lparr>device_id := v\<rparr>)] k"

fun texto_o_null :: "sqlexp \<Rightarrow> string option option" where
  "texto_o_null (EStr v) = Some (Some v)"
| "texto_o_null ENull = Some None"
| "texto_o_null e = None"

fun asignaciones :: "sqlexp list \<Rightarrow> (sensor \<Rightarrow> sensor) option" where
  "asignaciones [] = Some (\<lambda>s. s)"
| "asignaciones (EIgual k (Some e) # es) =
     (case (columna_texto k, texto_o_null e, asignaciones es) of
        (Some a, Some v, Some g) \<Rightarrow> Some (\<lambda>s. g (a v s))
      | _ \<Rightarrow> None)"
| "asignaciones (e # es) = None"

definition set_objeto :: "jsval \<Rightarrow> (sensor \<Rightarrow> sensor) option" where
  "set_objeto u =
     (case escape False u of
        Some (EIgual k (Some (ENum (Finite q))) # es) \<Rightarrow>
          (case (columna_numero k, asignaciones es) of
             (Some c, Some g) \<Rightarrow>
               Some (\<lambda>s. g (s\<lparr>umbral_ith :=
                                 map_option (\<lambda>x. if x = q then 1 else 0) (c s)\<rparr>))
           | _ \<Rightarrow> None)
      | _ \<Rightarrow> None)"

text \<open>
  The assignments of the first UPDATE that come before and after the threshold.
\<close>

definition set_antes :: "actualizar_body \<Rightarrow> sensor \<Rightarrow> sensor" where
  "set_antes b s =
     s\<lparr>modelo := coalesce (b_modelo b) (modelo s),
       area := coalesce (b_area b) (area s),
       zona := coalesce (b_zona b) (zona s),
       sala := coalesce (b_sala b) (sala s),
       modo := coalesce (b_modo b) (modo s)\<rparr>"

definition set_despues :: "nat \<Rightarrow> actualizar_body \<Rightarrow> sensor \<Rightarrow> sensor" where
  "set_despues now b s =
     s\<lparr>dev_id := coalesce (b_dev_id b) (dev_id s), updated_at := Some now\<rparr>"

text \<open>
  Modelled from the spec: the uniqueness constraint on \<^verbatim>\<open>dev_eui\<close>, for a statement
  that assigns the column through such a list of pairs. It fails with \<open>ER_DUP_ENTRY\<close>
  when a row it changed holds an EUI that another row holds.
\<close>

definition duplicado :: "sensor list \<Rightarrow> sensor list \<Rightarrow> bool" where
  "duplicado rows rows1 =
     list_ex (\<lambda>p. dev_eui (snd p) \<noteq> dev_eui (fst p) \<and> dev_eui (snd p) \<noteq> None
                   \<and> 1 < length (filter (\<lambda>s. dev_eui s = dev_eui (snd p)) rows1))
       (zip rows rows1)"

definition update_campos_objeto ::
  "nat \<Rightarrow> jsval \<Rightarrow> sensor list \<Rightarrow> (db_error + (nat \<times> sensor list)) option" where
  "update_campos_objeto now req_body rows =
     (case (Option.bind (decode_textos req_body) (decode_claves req_body),
            set_objeto (js_prop req_body ''umbral_ith'')) of
        (Some b, Some g) \<Rightarrow>
          let rows1 = sql_update (where_actualizar b)
                        (\<lambda>s. set_despues now b (g (set_antes b s))) rows
          in Some (if duplicado rows rows1 then Inl ER_DUP_ENTRY
                   else Inr (affectedRows (where_actualizar b) rows, rows1))
      | _ \<Rightarrow> None)"

text \<open>
  The first UPDATE on the body as it is received: on a body of the types of the columns
  it is the statement of \<open>actualizar_try\<close>; on an object threshold of the form above it
  is the list of assignments; every other statement is left to the server.
\<close>

definition update_campos ::
  "mysql \<Rightarrow> nat \<Rightarrow> jsval \<Rightarrow> sensor list \<Rightarrow> db_error + (nat \<times> sensor list)" where
  "update_campos my now req_body rows =
     (case decode_actualizar req_body of
        Some b \<Rightarrow>
          Inr (affectedRows (where_actualizar b) rows,
               sql_update (where_actualizar b) (set_campos now b) rows)
      | None \<Rightarrow>
          (case update_campos_objeto now req_body rows of
             Some r \<Rightarrow> r
           | None \<Rightarrow> update_campos_servidor my req_body now rows))"

text \<open>
  The back-link on the two values as they are received: the statement of
  \<open>update_dev_eui\<close> for a string and a natural number.
\<close>

definition vincular_dev_eui :: "mysql \<Rightarrow> jsval \<Rightarrow> jsval \<Rightarrow> sensor list \<Rightarrow> db_error + sensor list" where
  "vincular_dev_eui my e i rows =
     (case (e, campo_natural i) of
        (JStr x, Some (Some n)) \<Rightarrow> update_dev_eui x n rows
      | _ \<Rightarrow> update_dev_eui_servidor my e i rows)"

text \<open>
  The \<^verbatim>\<open>try\<close> block and the handler of the transactional variant, on the body as it
  is received. The destructuring of \<^verbatim>\<open>req.body\<close> is outside the \<^verbatim>\<open>try\<close> block: on
  \<^verbatim>\<open>undefined\<close> or \<^verbatim>\<open>null\<close> it throws and the handler sends no response.
\<close>

definition put_actualizar_try ::
  "mysql \<Rightarrow> faults \<Rightarrow> nat \<Rightarrow> jsval \<Rightarrow> sensor list \<Rightarrow> db_error + (nat \<times> sensor list)" where
  "put_actualizar_try my f now req_body rows =
     (let i = js_prop req_body ''id_sensor''; e = js_prop req_body ''dev_eui'' in
      case f 1 of
        Some e1 \<Rightarrow> Inl e1
      | None \<Rightarrow>
     (case f 2 of
        Some e2 \<Rightarrow> Inl e2
      | None \<Rightarrow>
     (case update_campos my now req_body rows of
        Inl e3 \<Rightarrow> Inl e3
      | Inr (affected, rows1) \<Rightarrow>
          (case (if truthy i \<and> truthy e
                 then (case f 3 of
                         Some e4 \<Rightarrow> Inl e4
                       | None \<Rightarrow> vincular_dev_eui my e i rows1)
                 else Inr rows1) of
             Inl e5 \<Rightarrow> Inl e5
           | Inr rows2 \<Rightarrow>
               (case f 4 of
                  Some e6 \<Rightarrow> Inl e6
                | None \<Rightarrow> Inr (affected, rows2))))))"

definition put_actualizar ::
  "mysql \<Rightarrow> faults \<Rightarrow> nat \<Rightarrow> jsval \<Rightarrow> db \<times> nat \<Rightarrow> response option \<times> db \<times> nat" where
  "put_actualizar my f now req_body st =
     (let d = fst st; leased = snd st in
      if req_body = JUndefined \<or> req_body = JNull then (None, d, leased)
      else if \<not> truthy (js_prop req_body ''id_sensor'') \<and> \<not> truthy (js_prop req_body ''dev_eui'')
      then (Some (json_error 400 ''falta_id_o_dev_eui''), d, leased)
      else
        (case getConnection (f 0) leased of
           None \<Rightarrow> (None, d, leased)
         | Some (Inl e) \<Rightarrow> (None, d, leased)
         | Some (Inr conn) \<Rightarrow>
             (case put_actualizar_try my f now req_body (sensores d) of
                Inr (affected, rows2) \<Rightarrow>
                  (Some (json 200 [(''ok'', JBool True),
                                   (''affected'', JNum (Finite (of_nat affected)))]),
                   d\<lparr>sensores := rows2\<rparr>, release conn)
              | Inl e \<Rightarrow>
                  (case f 5 of
                     Some e2 \<Rightarrow> (None, d, release conn)
                   | None \<Rightarrow>
                       if e = ER_DUP_ENTRY then
                         (Some (json_error 409 ''dev_eui_duplicado''), d, release conn)
                       else (Some (json_error 500 ''db_error''), d, release conn)))))"

subsection \<open>The variant that selects by EUI only\<close>

text \<open>
  MySQL's \<^verbatim>\<open>TRIM\<close>, which removes spaces, and \<^verbatim>\<open>UPPER\<close>, which on a string of
  ASCII characters maps the letters a to z to A to Z.
\<close>

definition sql_TRIM :: "string \<Rightarrow> string" where
  "sql_TRIM s = rev (dropWhile (\<lambda>c. c = CHR '' '') (rev (dropWhile (\<lambda>c. c = CHR '' '') s)))"

definition sql_UPPER :: "mysql \<Rightarrow> string \<Rightarrow> string" where
  "sql_UPPER my s =
     (if list_all ascii s then map toUpperCase_char s else upper_no_ascii my s)"

text \<open>
  \<^verbatim>\<open>
  app.put('/api/sensores/actualizar', async (req, res) => {
    try {
      let { dev_eui, modelo, area, zona, sala, modo, umbral_ith } = req.body;
      if (!dev_eui) return res.status(400).json({error:'dev_eui_requerido'});
      dev_eui = String(dev_eui).trim().toUpperCase();
      const [rows] = await pool.query(
        `SELECT id_sensor, UPPER(TRIM(dev_eui)) AS eui FROM sensores WHERE dev_eui IS NOT NULL`);
      const row = rows.find(r => r.eui === dev_eui);
      if (!row) return res.status(404).json({error:'sensor_no_encontrado'});
      await pool.query(
        `UPDATE sensores SET
            modelo     = COALESCE(NULLIF(?, ''), modelo),
            area       = COALESCE(NULLIF(?, ''), area),
            zona       = COALESCE(?, zona),
            sala       = COALESCE(NULLIF(?, ''), sala),
            modo       = COALESCE(NULLIF(?, ''), modo),
            umbral_ith = COALESCE(?, umbral_ith),
            updated_at = NOW()
          WHERE id_sensor = ?`,
        [modelo, area, zona, sala, modo, umbral_ith, row.id_sensor]);
      res.json({ ok:true });
    } catch (e) {
      console.error(e); res.status(500).json({error:'db_error'});
    }
  });
  \<close>
  Call 0 is the SELECT, call 1 the UPDATE. The destructuring and \<^verbatim>\<open>String(dev_eui)\<close>
  are inside the \<^verbatim>\<open>try\<close> block: what they throw is answered with the status 500.
  On six fields of the types of their columns the UPDATE is \<open>set_campos_por_dev_eui\<close>;
  every other statement is left to the server.
\<close>

definition select_eui :: "mysql \<Rightarrow> db \<Rightarrow> (nat \<times> string) list" where
  "select_eui my d =
     map (\<lambda>s. (id_sensor s, sql_UPPER my (sql_TRIM (the (dev_eui s)))))
       (filter (\<lambda>s. dev_eui s \<noteq> None) (sensores d))"

definition set_campos_por_dev_eui :: "nat \<Rightarrow> actualizar_body \<Rightarrow> sensor \<Rightarrow> sensor" where
  "set_campos_por_dev_eui now b s =
     s\<lparr>modelo := coalesce (nullif_empty (b_modelo b)) (modelo s),
       area := coalesce (nullif_empty (b_area b)) (area s),
       zona := coalesce (b_zona b) (zona s),
       sala := coalesce (nullif_empty (b_sala b)) (sala s),
       modo := coalesce (nullif_empty (b_modo b)) (modo s),
       umbral_ith := coalesce (b_umbral_ith b) (umbral_ith s),
       updated_at := Some now\<rparr>"

definition update_por_dev_eui ::
  "mysql \<Rightarrow> nat \<Rightarrow> jsval \<Rightarrow> nat \<Rightarrow> sensor list \<Rightarrow> db_error + sensor list" where
  "update_por_dev_eui my now req_body i rows =
     (case decode_campos req_body of
        Some b \<Rightarrow> Inr (sql_update (\<lambda>s. id_sensor s = i) (set_campos_por_dev_eui now b) rows)
      | None \<Rightarrow> update_por_dev_eui_servidor my req_body i now rows)"

definition put_actualizar_por_dev_eui ::
  "ecmascript \<Rightarrow> mysql \<Rightarrow> faults \<Rightarrow> nat \<Rightarrow> jsval \<Rightarrow> db \<Rightarrow> response \<times> db" where
  "put_actualizar_por_dev_eui es my f now req_body d =
     (if req_body = JUndefined \<or> req_body = JNull then (json_error 500 ''db_error'', d)
      else if \<not> truthy (js_prop req_body ''dev_eui'') then
        (json_error 400 ''dev_eui_requerido'', d)
      else
        (case js_String es (js_prop req_body ''dev_eui'') of
           None \<Rightarrow> (json_error 500 ''db_error'', d)
         | Some str \<Rightarrow>
             let eui = toUpperCase es (js_trim str) in
             (case f 0 of
                Some e \<Rightarrow> (json_error 500 ''db_error'', d)
              | None \<Rightarrow>
                  (case find (\<lambda>r. snd r = eui) (select_eui my d) of
                     None \<Rightarrow> (json_error 404 ''sensor_no_encontrado'', d)
                   | Some row \<Rightarrow>
                       (case f 1 of
                          Some e \<Rightarrow> (json_error 500 ''db_error'', d)
                        | None \<Rightarrow>
                            (case update_por_dev_eui my now req_body (fst row) (sensores d) of
                               Inl e \<Rightarrow> (json_error 500 ''db_error'', d)
                             | Inr rows1 \<Rightarrow>
                                 (json 200 [(''ok'', JBool True)],
                                  d\<lparr>sensores := rows1\<rparr>)))))))"

section \<open>POST /api/downlink\<close>

text \<open>
  \<^verbatim>\<open>Buffer.from(text, 'utf8').toString('base64')\<close>: the bytes of the string in UTF-8,
  then base64 with padding. An unpaired surrogate, which a string of JSON can escape
  and which is carried here as the three bytes of its code point (237, then 160 to
  191, then one more), is encoded as the replacement character.
\<close>

fun utf8 :: "string \<Rightarrow> nat list" where
  "utf8 (a # b # c # s) =
     (if (of_char a :: nat) = 237 \<and> 160 \<le> (of_char b :: nat) then [239, 191, 189] @ utf8 s
      else of_char a # utf8 (b # c # s))"
| "utf8 s = map of_char s"

definition b64 :: "nat \<Rightarrow> char" where
  "b64 n = ''ABCDEFGHIJKLMNOPQRSTUVWXYZabcdefghijklmnopqrstuvwxyz0123456789+/'' ! n"

fun base64 :: "nat list \<Rightarrow> string" where
  "base64 (x # y # z # rest) =
     [b64 (x div 4), b64 ((x mod 4) * 16 + y div 16), b64 ((y mod 16) * 4 + z div 64),
      b64 (z mod 64)] @ base64 rest"
| "base64 [x, y] =
     [b64 (x div 4), b64 ((x mod 4) * 16 + y div 16), b64 ((y mod 16) * 4), CHR ''='']"
| "base64 [x] = [b64 (x div 4), b64 ((x mod 4) * 16), CHR ''='', CHR ''='']"
| "base64 [] = []"

text \<open>
  The request the handler sends to the network server with \<^verbatim>\<open>fetch\<close>, and what
  \<^verbatim>\<open>fetch\<close> gives back: it throws, or it returns a response with its \<^verbatim>\<open>ok\<close> flag,
  status and text.
\<close>

record outbound =
  url :: string
  authorization :: string
  f_port :: nat
  frm_payload :: string
  priority :: string

datatype fetch_result = FetchThrows | FetchResponse bool nat string

text \<open>
  \<^verbatim>\<open>
  SELECT app_id, device_id FROM sensores WHERE UPPER(TRIM(dev_eui)) = ? LIMIT 1
  \<close>
\<close>

definition select_app_device ::
  "mysql \<Rightarrow> string \<Rightarrow> db \<Rightarrow> (string option \<times> string option) list" where
  "select_app_device my eui d =
     take 1 (map (\<lambda>s. (app_id s, device_id s))
       (filter (\<lambda>s. dev_eui s \<noteq> None \<and> sql_UPPER my (sql_TRIM (the (dev_eui s))) = eui)
          (sensores d)))"

text \<open>
  \<^verbatim>\<open>
  app.post('/api/downlink', async (req, res) => {
    try {
      let { dev_eui, cmd } = req.body || {};
      if (!dev_eui || !cmd) return res.status(400).json({ error: 'faltan_campos' });
      dev_eui = String(dev_eui).trim().toUpperCase();
      const [rows] = await pool.query(
        `SELECT app_id, device_id FROM sensores WHERE UPPER(TRIM(dev_eui)) = ? LIMIT 1`,
        [dev_eui]);
      if (!rows.length) return res.status(404).json({ error: 'sensor_no_encontrado' });
      const { app_id, device_id } = rows[0];
      if (!app_id || !device_id) {
        return res.status(409).json({ error: 'falta_app_o_device_id' });
      }
      const TTN_API_KEY = process.env.TTN_API_KEY;
      if (!TTN_API_KEY) return res.status(500).json({ error: 'ttn_api_key_no_configurada' });
      const url = `https://eu1.cloud.thethings.network/api/v3/as/applications/${app_id}/devices/${device_id}/down/push`;
      const frmPayloadB64 = Buffer.from(String(cmd), 'utf8').toString('base64');
      const body = { downlinks: [ { f_port: 1, frm_payload: frmPayloadB64, priority: 'NORMAL' } ] };
      const r = await fetch(url, {
        method: 'POST',
        headers: { 'Authorization': `Bearer ${TTN_API_KEY}`, 'Content-Type': 'application/json' },
        body: JSON.stringify(body)
      });
      const text = await r.text();
      if (!r.ok) {
        return res.status(502).json({ error: 'ttn_error', status: r.status, detail: text });
      }
      res.json({ ok: true });
    } catch (e) {
      res.status(500).json({ error: 'downlink_error' });
    }
  });
  \<close>
  The result is the response and the list of the requests sent to the network server.
  Call 0 is the SELECT; \<open>api_key\<close> is the environment variable \<^verbatim>\<open>TTN_API_KEY\<close>.
  Both calls of \<^verbatim>\<open>String\<close> are inside the \<^verbatim>\<open>try\<close> block and before
  \<^verbatim>\<open>fetch\<close>: what they throw is answered with the status 500, and nothing is sent.
\<close>

definition downlink ::
  "ecmascript \<Rightarrow> mysql \<Rightarrow> string option \<Rightarrow> fetch_result \<Rightarrow> faults \<Rightarrow> jsval \<Rightarrow> db
     \<Rightarrow> response \<times> outbound list" where
  "downlink es my api_key ttn f req_body d =
     (let b = js_or req_body (JObj []);
          dev = js_prop b ''dev_eui'';
          cmd = js_prop b ''cmd''
      in if \<not> truthy dev \<or> \<not> truthy cmd then (json_error 400 ''faltan_campos'', [])
         else
           (case js_String es dev of
              None \<Rightarrow> (json_error 500 ''downlink_error'', [])
            | Some str \<Rightarrow>
           let eui = toUpperCase es (js_trim str) in
           (case f 0 of
              Some e \<Rightarrow> (json_error 500 ''downlink_error'', [])
            | None \<Rightarrow>
                (case select_app_device my eui d of
                   [] \<Rightarrow> (json_error 404 ''sensor_no_encontrado'', [])
                 | (app, device) # _ \<Rightarrow>
                     if \<not> truthy_str app \<or> \<not> truthy_str device then
                       (json_error 409 ''falta_app_o_device_id'', [])
                     else if \<not> truthy_str api_key then
                       (json_error 500 ''ttn_api_key_no_configurada'', [])
                     else
                       (case js_String es cmd of
                          None \<Rightarrow> (json_error 500 ''downlink_error'', [])
                        | Some texto \<Rightarrow>
                       let call =
                             \<lparr>url = ''https://eu1.cloud.thethings.network/api/v3/as/applications/''
                                     @ the app @ ''/devices/'' @ the device @ ''/down/push'',
                              authorization = ''Bearer '' @ the api_key,
                              f_port = 1,
                              frm_payload = base64 (utf8 texto),
                              priority = ''NORMAL''\<rparr>
                       in (case ttn of
                             FetchThrows \<Rightarrow> (json_error 500 ''downlink_error'', [call])
                           | FetchResponse ok st text \<Rightarrow>
                               if \<not> ok then
                                 (json 502 [(''error'', JStr ''ttn_error''),
                                            (''status'', JNum (Finite (of_nat st))),
                                            (''detail'', JStr text)], [call])
                               else (json 200 [(''ok'', JBool True)], [call])))))))"

section \<open>Concrete stores and requests\<close>

text \<open>
  \<open>store2\<close> holds three sensors: the first with an EUI, a model and a threshold, the
  second registered by the webhook, the third without an EUI.
\<close>

definition store2 :: db where
  "store2 =
     \<lparr>sensores =
        [(new_sensor 1 ''establo'' (Some ''AABB'') (Some 1))
           \<lparr>modelo := Some ''MKR1310'', area := Some ''norte'', umbral_ith := Some 72\<rparr>,
         new_sensor 2 ''TTN-0C'' (Some ''0C'') None,
         new_sensor 3 ''sala de espera'' None (Some 1)],
      mediciones = [], auto_increment = 4\<rparr>"

definition solo :: actualizar_body where
  "solo = \<lparr>b_id_sensor = None, b_dev_eui = None, b_modelo = None, b_area = None,
            b_zona = None, b_sala = None, b_modo = None, b_umbral_ith = None,
            b_dev_id = None\<rparr>"

definition enciende :: jsval where
  "enciende = JObj [(''dev_eui'', JStr '' aabb''), (''cmd'', JStr ''ON'')]"

text \<open>
  Requests to the update endpoint at the types of the columns: one that sends an EUI
  for sensor 3, one that sets the mode of sensor 1, and one that sends for sensor 3 the
  EUI of sensor 1.
\<close>

definition vincula3 :: actualizar_body where
  "vincula3 = solo\<lparr>b_id_sensor := Some 3, b_dev_eui := Some ''AABBCC''\<rparr>"

definition manual1 :: actualizar_body where
  "manual1 = solo\<lparr>b_id_sensor := Some 1, b_modo := Some ''manual''\<rparr>"


text \<open>
  Bodies as they are received: one that sets the mode of sensor 1, one that sets the
  mode of the sensor with the EUI \<^verbatim>\<open>aabb\<close>, and one that sends for sensor 1,
  together with an EUI, an object as the threshold.
\<close>

definition cuerpo_manual1 :: jsval where
  "cuerpo_manual1 = JObj [(''id_sensor'', JNum (Finite 1)), (''modo'', JStr ''manual'')]"

definition cuerpo_manual_aabb :: jsval where
  "cuerpo_manual_aabb = JObj [(''dev_eui'', JStr ''aabb''), (''modo'', JStr ''manual'')]"

definition cuerpo_umbral_objeto :: jsval where
  "cuerpo_umbral_objeto =
     JObj [(''id_sensor'', JNum (Finite 1)), (''dev_eui'', JStr ''HACK''),
           (''umbral_ith'',
              JObj [(''id_sensor'', JNum (Finite 1)), (''dev_eui'', JStr ''HACK'')])]"

text \<open>
  An environment for the evaluations below: tables of the language and a server that
  map a string outside ASCII to itself and refuse every statement left to them. The
  evaluations use strings of ASCII, convert no number to a string and bind parameters
  of the types of their columns, so none of them reaches one of these fields.
\<close>

definition es0 :: ecmascript where
  "es0 = \<lparr>number_toString = (\<lambda>n. ''0''), unicode_upper = (\<lambda>s. s)\<rparr>"

definition my0 :: mysql where
  "my0 =
     \<lparr>upper_no_ascii = (\<lambda>s. s),
      insert_mediciones = (\<lambda>t h i. None),
      update_campos_servidor = (\<lambda>req_body now rows. Inl ER_OTHER),
      update_dev_eui_servidor = (\<lambda>e i rows. Inl ER_OTHER),
      update_por_dev_eui_servidor = (\<lambda>req_body i now rows. Inl ER_OTHER)\<rparr>"

section \<open>Reading validator\<close>

lemma fuera_iff:
  "fuera v lo hi \<longleftrightarrow> \<not> (\<exists>q. v = JNum (Finite q) \<and> lo \<le> q \<and> q \<le> hi)"
proof (cases v)
  case (JNum n)
  then show ?thesis by (cases n) (auto simp: fuera_def)
qed (simp_all add: fuera_def)

lemma lecturaValida_general:
  "lecturaValida t h i \<longleftrightarrow>
     (\<exists>a b c. t = JNum (Finite a) \<and> h = JNum (Finite b) \<and> i = JNum (Finite c) \<and>
        -40 \<le> a \<and> a \<le> 85 \<and> 0 \<le> b \<and> b \<le> 100 \<and> 0 \<le> c \<and> c \<le> 120)"
  unfolding lecturaValida_def fuera_iff by auto

text \<open>
  C5. The reading validator accepts a triple exactly when all three values are numbers,
  the temperature lies in [-40, 85], the humidity in [0, 100] and the index in [0, 120].
  (25, 60, 70) and the boundary (85, 100, 120) are accepted; (-41, 50, 50),
  ("hot", 50, 50) and (85.1, 100, 120) are rejected.
\<close>

theorem lecturaValida_iff:
  "(lecturaValida t h i \<longleftrightarrow>
      (\<exists>a b c. t = JNum (Finite a) \<and> h = JNum (Finite b) \<and> i = JNum (Finite c) \<and>
         -40 \<le> a \<and> a \<le> 85 \<and> 0 \<le> b \<and> b \<le> 100 \<and> 0 \<le> c \<and> c \<le> 120))
   \<and> lecturaValida (JNum (Finite 25)) (JNum (Finite 60)) (JNum (Finite 70))
   \<and> lecturaValida (JNum (Finite 85)) (JNum (Finite 100)) (JNum (Finite 120))
   \<and> \<not> lecturaValida (JNum (Finite (-41))) (JNum (Finite 50)) (JNum (Finite 50))
   \<and> \<not> lecturaValida (JStr ''hot'') (JNum (Finite 50)) (JNum (Finite 50))
   \<and> \<not> lecturaValida (JNum (Finite (851 / 10))) (JNum (Finite 100)) (JNum (Finite 120))"
  unfolding lecturaValida_general by simp

theorem lecturaValida_iff_witness:
  "lecturaValida (JNum (Finite (-40))) (JNum (Finite 0)) (JNum (Finite 0))
   \<and> \<not> lecturaValida (JNum (Finite 25)) (JNum (Finite 60)) (JNum PosInf)
   \<and> \<not> lecturaValida (JNum (Finite 25)) JUndefined (JNum (Finite 70))"
  using lecturaValida_iff [of "JNum (Finite (-40))" "JNum (Finite 0)" "JNum (Finite 0)"]
    lecturaValida_iff [of "JNum (Finite 25)" "JNum (Finite 60)" "JNum PosInf"]
    lecturaValida_iff [of "JNum (Finite 25)" JUndefined "JNum (Finite 70)"]
  by simp

section \<open>EUI normalizer\<close>

lemma toUpperCase_char_hex: "hex_upper c \<Longrightarrow> toUpperCase_char c = c"
  by (auto simp: hex_upper_def toUpperCase_char_def)

lemma hex_upper_ascii: "hex_upper c \<Longrightarrow> ascii c"
  by (auto simp: hex_upper_def ascii_def)

lemma toUpperCase_hex: "list_all hex_upper s \<Longrightarrow> toUpperCase es s = s"
proof -
  assume h: "list_all hex_upper s"
  then have a: "list_all ascii s"
    by (induction s) (simp_all add: hex_upper_ascii)
  from h have "map toUpperCase_char s = s"
    by (induction s) (simp_all add: toUpperCase_char_hex)
  with a show ?thesis by (simp add: toUpperCase_def)
qed

lemma filter_hex_canonical:
  "filter hex_upper (toUpperCase es (filter hex_upper s)) = filter hex_upper s"
proof -
  have all: "list_all hex_upper (filter hex_upper s)"
    by (simp add: list_all_iff)
  have "toUpperCase es (filter hex_upper s) = filter hex_upper s"
    by (rule toUpperCase_hex [OF all])
  then show ?thesis by simp
qed

lemma normalizarDevEui_JStr:
  "s \<noteq> [] \<Longrightarrow>
   normalizarDevEui es (JStr s) = Some (JStr (filter hex_upper (toUpperCase es s)))"
  by (simp add: normalizarDevEui_def)

lemma normalizarDevEui_Some:
  "normalizarDevEui es raw = Some r \<Longrightarrow>
   r = JNull \<or> (\<exists>s. r = JStr (filter hex_upper s))"
  by (auto simp: normalizarDevEui_def split: if_splits option.splits)

text \<open>
  C6, as stated, fails: an input made of separators only is mapped to the empty string,
  and the empty string is mapped to \<^verbatim>\<open>null\<close>, so a second application changes the
  result.
\<close>

theorem normalizarDevEui_not_idempotent:
  "Option.bind (normalizarDevEui es0 (JStr '':'')) (normalizarDevEui es0)
     \<noteq> normalizarDevEui es0 (JStr '':'')"
  by code_simp

text \<open>
  C6, amended. Where the normalizer returns a result, a second application returns the
  same result, unless that result is the empty string, which the second application
  maps to \<^verbatim>\<open>null\<close>. An absent input (\<^verbatim>\<open>undefined\<close>, \<^verbatim>\<open>null\<close>, the empty
  string, any falsy value) is mapped to \<^verbatim>\<open>null\<close>; any other string is mapped to its
  upper-case form with every character outside \<^verbatim>\<open>[0-9A-F]\<close> removed, which is the
  empty string when no character is left.
  \<^verbatim>\<open>normalize("70:b3:d5:7e:d0:03:ab:cd")\<close> is \<^verbatim>\<open>"70B3D57ED003ABCD"\<close>.
\<close>

theorem normalizarDevEui_idempotent:
  "(normalizarDevEui es raw = Some r \<and> r \<noteq> JStr [] \<longrightarrow> normalizarDevEui es r = Some r)
   \<and> (normalizarDevEui es raw = Some (JStr []) \<longrightarrow>
        normalizarDevEui es (JStr []) = Some JNull)
   \<and> (\<not> truthy raw \<longrightarrow> normalizarDevEui es raw = Some JNull)
   \<and> (s \<noteq> [] \<longrightarrow>
        normalizarDevEui es (JStr s) = Some (JStr (filter hex_upper (toUpperCase es s)))
        \<and> set (filter hex_upper (toUpperCase es s)) \<subseteq> set ''0123456789ABCDEF'')
   \<and> normalizarDevEui es (JStr ''70:b3:d5:7e:d0:03:ab:cd'') = Some (JStr ''70B3D57ED003ABCD'')"
proof -
  have twice: "normalizarDevEui es raw = Some r \<and> r \<noteq> JStr [] \<longrightarrow> normalizarDevEui es r = Some r"
  proof
    assume a: "normalizarDevEui es raw = Some r \<and> r \<noteq> JStr []"
    then consider "r = JNull" | x where "r = JStr (filter hex_upper x)"
      using normalizarDevEui_Some by blast
    then show "normalizarDevEui es r = Some r"
    proof cases
      case 1
      then show ?thesis by (simp add: normalizarDevEui_def)
    next
      case 2
      with a have ne: "filter hex_upper x \<noteq> []" by simp
      have "normalizarDevEui es (JStr (filter hex_upper x))
              = Some (JStr (filter hex_upper (toUpperCase es (filter hex_upper x))))"
        by (rule normalizarDevEui_JStr [OF ne])
      also have "\<dots> = Some (JStr (filter hex_upper x))"
        by (simp only: filter_hex_canonical)
      finally show ?thesis using 2 by simp
    qed
  qed
  have empty: "normalizarDevEui es (JStr []) = Some JNull"
    by (simp add: normalizarDevEui_def)
  have absent: "\<not> truthy raw \<longrightarrow> normalizarDevEui es raw = Some JNull"
    by (simp add: normalizarDevEui_def)
  have hex: "set (filter hex_upper (toUpperCase es s)) \<subseteq> set ''0123456789ABCDEF''"
    by (auto simp: hex_upper_def)
  have str: "s \<noteq> [] \<longrightarrow>
        normalizarDevEui es (JStr s) = Some (JStr (filter hex_upper (toUpperCase es s)))"
    by (simp add: normalizarDevEui_JStr)
  have example: "normalizarDevEui es (JStr ''70:b3:d5:7e:d0:03:ab:cd'') = Some (JStr ''70B3D57ED003ABCD'')"
    by code_simp
  from twice empty absent hex str example show ?thesis by blast
qed

theorem normalizarDevEui_idempotent_witness:
  "normalizarDevEui es0 (JArr [JStr ''aa:0f'']) = Some (JStr ''AA0F'')
   \<and> normalizarDevEui es0 (JStr ''AA0F'') = Some (JStr ''AA0F'')
   \<and> normalizarDevEui es0 (JStr '':'') = Some (JStr [])
   \<and> normalizarDevEui es0 (JStr []) = Some JNull
   \<and> \<not> truthy JUndefined \<and> normalizarDevEui es0 JUndefined = Some JNull
   \<and> normalizarDevEui es0 (JStr ''aa:0f'') = Some (JStr ''AA0F'')"
proof -
  have val: "normalizarDevEui es0 (JArr [JStr ''aa:0f'']) = Some (JStr ''AA0F'')" by code_simp
  have ne: "JStr ''AA0F'' \<noteq> JStr []" by simp
  have sep: "normalizarDevEui es0 (JStr '':'') = Some (JStr [])" by code_simp
  have str: "filter hex_upper (toUpperCase es0 ''aa:0f'') = ''AA0F''" by code_simp
  have s: "''aa:0f'' \<noteq> []" by simp
  note inst = normalizarDevEui_idempotent [of es0 "JArr [JStr ''aa:0f'']" "JStr ''AA0F''" "''aa:0f''"]
  note inst2 = normalizarDevEui_idempotent [of es0 "JStr '':''" r "''aa:0f''" for r]
  note inst3 = normalizarDevEui_idempotent [of es0 JUndefined r "''aa:0f''" for r]
  from inst val ne have a: "normalizarDevEui es0 (JStr ''AA0F'') = Some (JStr ''AA0F'')"
    by blast
  from inst2 sep have b: "normalizarDevEui es0 (JStr []) = Some JNull"
    by blast
  from inst3 have c: "normalizarDevEui es0 JUndefined = Some JNull"
    by simp
  from inst s str have d: "normalizarDevEui es0 (JStr ''aa:0f'') = Some (JStr ''AA0F'')"
    by simp
  from val a sep b c d show ?thesis by simp
qed

section \<open>Health probe\<close>

text \<open>
  C10. In \<^verbatim>\<open>/health\<close> the connection is released on the success path only: when
  \<^verbatim>\<open>getConnection\<close> has returned a connection and \<^verbatim>\<open>ping\<close> fails, the handler
  responds 500 and the connection stays leased; when \<^verbatim>\<open>ping\<close> succeeds the
  connection is back in the pool.
\<close>

theorem health_releases_on_success_only:
  assumes "leased < connectionLimit" and "f 0 = None"
  shows "(f 1 \<noteq> None \<longrightarrow>
            health f leased = (Some ping_failed, Suc leased) \<and> status ping_failed = 500)
         \<and> (f 1 = None \<longrightarrow>
            health f leased = (Some (json 200 [(''ok'', JBool True)]), leased))"
  using assms
  by (auto simp: health_def getConnection_def release_def ping_failed_def json_def)

theorem health_releases_on_success_only_witness:
  "(0::nat) < connectionLimit
   \<and> health (\<lambda>k. if k = 1 then Some ER_OTHER else None) 0 = (Some ping_failed, Suc 0)
   \<and> health no_faults 0 = (Some (json 200 [(''ok'', JBool True)]), 0)"
proof -
  have l: "(0::nat) < connectionLimit" by (simp add: connectionLimit_def)
  have a: "health (\<lambda>k. if k = 1 then Some ER_OTHER else None) 0 = (Some ping_failed, Suc 0)"
    using health_releases_on_success_only [of 0 "\<lambda>k. if k = 1 then Some ER_OTHER else None", OF l]
    by simp
  have b: "health no_faults 0 = (Some (json 200 [(''ok'', JBool True)]), 0)"
    using health_releases_on_success_only [of 0 no_faults, OF l]
    by (simp add: no_faults_def)
  from l a b show ?thesis by blast
qed

section \<open>Resolve-or-create\<close>

lemma select_id_sensor_Nil:
  "select_id_sensor e d = [] \<longleftrightarrow> (\<forall>s\<in>set (sensores d). dev_eui s \<noteq> Some e)"
  by (auto simp: select_id_sensor_def filter_empty_conv)

lemma select_id_sensor_Cons:
  "select_id_sensor e d = i # rest \<Longrightarrow>
     \<exists>s\<in>set (sensores d). dev_eui s = Some e \<and> id_sensor s = i"
proof -
  assume a: "select_id_sensor e d = i # rest"
  then have "i \<in> set (select_id_sensor e d)" by simp
  then show ?thesis by (auto simp: select_id_sensor_def)
qed

lemma insert_sensor_new:
  "\<forall>s\<in>set (sensores d). dev_eui s \<noteq> Some e \<Longrightarrow>
     insert_sensor (''TTN-'' @ e) (Some e) None d =
       Inr (auto_increment d,
            d\<lparr>sensores := sensores d @ [new_sensor (auto_increment d) (''TTN-'' @ e) (Some e) None],
              auto_increment := Suc (auto_increment d)\<rparr>)"
  by (auto simp: insert_sensor_def)

lemma insert_sensor_dup:
  "s \<in> set (sensores d) \<Longrightarrow> dev_eui s = Some e \<Longrightarrow>
     insert_sensor nombre (Some e) granja d = Inl ER_DUP_ENTRY"
  by (force simp: insert_sensor_def)

lemma getOrCreate_new:
  assumes "\<forall>s\<in>set (sensores d). dev_eui s \<noteq> Some e"
  shows "getOrCreateSensorByDevEui no_faults e d =
       Inr (auto_increment d,
            d\<lparr>sensores := sensores d @ [new_sensor (auto_increment d) (''TTN-'' @ e) (Some e) None],
              auto_increment := Suc (auto_increment d)\<rparr>)"
proof -
  from assms have "select_id_sensor e d = []" by (simp add: select_id_sensor_Nil)
  then show ?thesis
    using insert_sensor_new [OF assms]
    by (simp add: getOrCreateSensorByDevEui_def getOrCreate_resume_def no_faults_def)
qed

lemma getOrCreate_found:
  assumes "s \<in> set (sensores d)" and "dev_eui s = Some e"
  shows "\<exists>s'\<in>set (sensores d). dev_eui s' = Some e \<and>
           getOrCreateSensorByDevEui no_faults e d = Inr (id_sensor s', d)"
proof -
  from assms have "select_id_sensor e d \<noteq> []" by (auto simp: select_id_sensor_Nil)
  then obtain i rest where sel: "select_id_sensor e d = i # rest"
    by (cases "select_id_sensor e d") auto
  from select_id_sensor_Cons [OF sel] obtain s' where
    s': "s' \<in> set (sensores d)" "dev_eui s' = Some e" "id_sensor s' = i" by blast
  have "getOrCreateSensorByDevEui no_faults e d = Inr (i, d)"
    by (simp add: getOrCreateSensorByDevEui_def getOrCreate_resume_def no_faults_def sel)
  with s' show ?thesis by blast
qed

lemma getOrCreate_again:
  assumes "getOrCreateSensorByDevEui no_faults e d = Inr (i, d')"
  shows "getOrCreateSensorByDevEui no_faults e d' = Inr (i, d')"
proof (cases "select_id_sensor e d")
  case Nil
  then have none: "\<forall>s\<in>set (sensores d). dev_eui s \<noteq> Some e"
    by (simp add: select_id_sensor_Nil)
  from assms getOrCreate_new [OF none] have
    i: "i = auto_increment d" and
    d': "d' = d\<lparr>sensores := sensores d @ [new_sensor (auto_increment d) (''TTN-'' @ e) (Some e) None],
              auto_increment := Suc (auto_increment d)\<rparr>" by auto
  from none have "filter (\<lambda>s. dev_eui s = Some e) (sensores d) = []"
    by (simp add: filter_empty_conv)
  then have "select_id_sensor e d' = [i]"
    by (simp add: select_id_sensor_def d' i new_sensor_def)
  then show ?thesis
    by (simp add: getOrCreateSensorByDevEui_def getOrCreate_resume_def no_faults_def)
next
  case (Cons j rest)
  with assms have "i = j" "d' = d"
    by (simp_all add: getOrCreateSensorByDevEui_def getOrCreate_resume_def no_faults_def)
  with Cons show ?thesis
    by (simp add: getOrCreateSensorByDevEui_def getOrCreate_resume_def no_faults_def)
qed

text \<open>
  C3. With no failure of the store, resolve-or-create returns the id of a stored row with
  the given EUI when there is one, and leaves the store as it is; otherwise it appends
  exactly one row, with the name \<^verbatim>\<open>TTN-\<close> followed by the EUI, no farm and the given
  EUI, and returns the id of that row. A second call with the same EUI returns the same
  id and leaves the store as the first call left it.
\<close>

theorem getOrCreateSensorByDevEui_resolves_or_creates:
  "((\<exists>s\<in>set (sensores d). dev_eui s = Some e) \<longrightarrow>
      (\<exists>s\<in>set (sensores d). dev_eui s = Some e \<and>
         getOrCreateSensorByDevEui no_faults e d = Inr (id_sensor s, d)))
   \<and> ((\<forall>s\<in>set (sensores d). dev_eui s \<noteq> Some e) \<longrightarrow>
      (\<exists>s' d'. getOrCreateSensorByDevEui no_faults e d = Inr (id_sensor s', d')
         \<and> sensores d' = sensores d @ [s'] \<and> mediciones d' = mediciones d
         \<and> id_sensor s' = auto_increment d \<and> nombre_sensor s' = ''TTN-'' @ e
         \<and> id_granja s' = None \<and> dev_eui s' = Some e))
   \<and> (\<forall>i d'. getOrCreateSensorByDevEui no_faults e d = Inr (i, d') \<longrightarrow>
         getOrCreateSensorByDevEui no_faults e d' = Inr (i, d'))
   \<and> (\<exists>i d'. getOrCreateSensorByDevEui no_faults e d = Inr (i, d'))"
proof -
  have found: "(\<exists>s\<in>set (sensores d). dev_eui s = Some e) \<longrightarrow>
      (\<exists>s\<in>set (sensores d). dev_eui s = Some e \<and>
         getOrCreateSensorByDevEui no_faults e d = Inr (id_sensor s, d))"
    using getOrCreate_found by blast
  have new: "(\<forall>s\<in>set (sensores d). dev_eui s \<noteq> Some e) \<longrightarrow>
      (\<exists>s' d'. getOrCreateSensorByDevEui no_faults e d = Inr (id_sensor s', d')
         \<and> sensores d' = sensores d @ [s'] \<and> mediciones d' = mediciones d
         \<and> id_sensor s' = auto_increment d \<and> nombre_sensor s' = ''TTN-'' @ e
         \<and> id_granja s' = None \<and> dev_eui s' = Some e)"
  proof
    assume none: "\<forall>s\<in>set (sensores d). dev_eui s \<noteq> Some e"
    let ?s = "new_sensor (auto_increment d) (''TTN-'' @ e) (Some e) None"
    let ?d = "d\<lparr>sensores := sensores d @ [?s], auto_increment := Suc (auto_increment d)\<rparr>"
    have "getOrCreateSensorByDevEui no_faults e d = Inr (id_sensor ?s, ?d)"
      using getOrCreate_new [OF none] by (simp add: new_sensor_def)
    moreover have "sensores ?d = sensores d @ [?s]" "mediciones ?d = mediciones d"
      "id_sensor ?s = auto_increment d" "nombre_sensor ?s = ''TTN-'' @ e"
      "id_granja ?s = None" "dev_eui ?s = Some e"
      by (simp_all add: new_sensor_def)
    ultimately show "\<exists>s' d'. getOrCreateSensorByDevEui no_faults e d = Inr (id_sensor s', d')
         \<and> sensores d' = sensores d @ [s'] \<and> mediciones d' = mediciones d
         \<and> id_sensor s' = auto_increment d \<and> nombre_sensor s' = ''TTN-'' @ e
         \<and> id_granja s' = None \<and> dev_eui s' = Some e"
      by blast
  qed
  have again: "\<forall>i d'. getOrCreateSensorByDevEui no_faults e d = Inr (i, d') \<longrightarrow>
         getOrCreateSensorByDevEui no_faults e d' = Inr (i, d')"
    using getOrCreate_again by blast
  have total: "\<exists>i d'. getOrCreateSensorByDevEui no_faults e d = Inr (i, d')"
  proof (cases "\<exists>s\<in>set (sensores d). dev_eui s = Some e")
    case True
    with found show ?thesis by blast
  next
    case False
    with new show ?thesis by blast
  qed
  from found new again total show ?thesis by blast
qed

theorem getOrCreateSensorByDevEui_resolves_or_creates_witness:
  "getOrCreateSensorByDevEui no_faults ''AABB'' store0 = Inr (1, store0)
   \<and> getOrCreateSensorByDevEui no_faults ''0C'' store0 =
       Inr (2, store0\<lparr>sensores := sensores store0 @ [new_sensor 2 ''TTN-0C'' (Some ''0C'') None],
                      auto_increment := 3\<rparr>)
   \<and> getOrCreateSensorByDevEui no_faults ''0C''
        (store0\<lparr>sensores := sensores store0 @ [new_sensor 2 ''TTN-0C'' (Some ''0C'') None],
                auto_increment := 3\<rparr>) =
       Inr (2, store0\<lparr>sensores := sensores store0 @ [new_sensor 2 ''TTN-0C'' (Some ''0C'') None],
                      auto_increment := 3\<rparr>)"
proof -
  have a: "getOrCreateSensorByDevEui no_faults ''AABB'' store0 = Inr (1, store0)"
    by (simp add: getOrCreateSensorByDevEui_def getOrCreate_resume_def no_faults_def
        select_id_sensor_def store0_def new_sensor_def)
  have b: "getOrCreateSensorByDevEui no_faults ''0C'' store0 =
       Inr (2, store0\<lparr>sensores := sensores store0 @ [new_sensor 2 ''TTN-0C'' (Some ''0C'') None],
                      auto_increment := 3\<rparr>)"
    by (simp add: getOrCreateSensorByDevEui_def getOrCreate_resume_def no_faults_def
        select_id_sensor_def store0_def new_sensor_def insert_sensor_def)
  from getOrCreateSensorByDevEui_resolves_or_creates [of store0 "''0C''"] b
  have "getOrCreateSensorByDevEui no_faults ''0C''
        (store0\<lparr>sensores := sensores store0 @ [new_sensor 2 ''TTN-0C'' (Some ''0C'') None],
                auto_increment := 3\<rparr>) =
       Inr (2, store0\<lparr>sensores := sensores store0 @ [new_sensor 2 ''TTN-0C'' (Some ''0C'') None],
                      auto_increment := 3\<rparr>)"
    by blast
  with a b show ?thesis by blast
qed

section \<open>Webhook ingestion\<close>

lemma valor_Finite: "valor (JNum (Finite q)) = Numero q"
  by (simp add: valor_def)

lemma insert_medicion_numeros:
  "insert_medicion my x (JNum (Finite a)) (JNum (Finite b)) (JNum (Finite c)) d =
     Inr (d\<lparr>mediciones := mediciones d @
            [\<lparr>m_id_sensor = x, temperatura = SNum a, humedad = SNum b, ith = SNum c\<rparr>]\<rparr>)"
  by (simp add: insert_medicion_def valores_def valor_Finite)

lemma insert_medicion_Inr:
  "insert_medicion my x t h i d = Inr d1 \<Longrightarrow>
   \<exists>m. d1 = d\<lparr>mediciones := mediciones d @ [m]\<rparr> \<and> m_id_sensor m = x"
  by (auto simp: insert_medicion_def split: if_splits option.splits)

lemma insert_sensor_Inr:
  assumes "insert_sensor nombre eui granja d = Inr (i, d1)"
  shows "i = auto_increment d"
    and "sensores d1 = sensores d @ [new_sensor i nombre eui granja]"
    and "mediciones d1 = mediciones d"
proof -
  from assms have both: "auto_increment d = i \<and>
        d\<lparr>sensores := sensores d @ [new_sensor (auto_increment d) nombre eui granja],
          auto_increment := Suc (auto_increment d)\<rparr> = d1"
    by (auto simp: insert_sensor_def split: if_splits)
  from both have i: "auto_increment d = i" ..
  from both have d1: "d\<lparr>sensores := sensores d @ [new_sensor (auto_increment d) nombre eui granja],
          auto_increment := Suc (auto_increment d)\<rparr> = d1" ..
  from i show "i = auto_increment d" by simp
  from d1 [symmetric] i show "sensores d1 = sensores d @ [new_sensor i nombre eui granja]"
    by simp
  from d1 [symmetric] show "mediciones d1 = mediciones d" by simp
qed

lemma getOrCreate_resume_select:
  assumes "getOrCreate_resume f e (select_id_sensor e d) d = Inr (i, d1)"
  shows "mediciones d1 = mediciones d \<and>
         (\<exists>s. s \<in> set (sensores d1) \<and> id_sensor s = i \<and> dev_eui s = Some e)"
proof (cases "select_id_sensor e d")
  case Nil
  with assms have ins: "insert_sensor (''TTN-'' @ e) (Some e) None d = Inr (i, d1)"
    by (simp add: getOrCreate_resume_def split: option.splits)
  let ?s = "new_sensor i (''TTN-'' @ e) (Some e) None"
  have "?s \<in> set (sensores d1)" using insert_sensor_Inr(2) [OF ins] by simp
  moreover have "id_sensor ?s = i" "dev_eui ?s = Some e" by (simp_all add: new_sensor_def)
  ultimately have "\<exists>s. s \<in> set (sensores d1) \<and> id_sensor s = i \<and> dev_eui s = Some e"
    by blast
  with insert_sensor_Inr(3) [OF ins] show ?thesis by simp
next
  case (Cons j rest)
  with assms have "Inr (j, d) = (Inr (i, d1) :: db_error + nat \<times> db)"
    by (simp add: getOrCreate_resume_def)
  then have "j = i" "d = d1" by simp_all
  with select_id_sensor_Cons [OF Cons] show ?thesis by blast
qed

lemma webhook_resume_select:
  assumes run: "webhook_resume my f e (JNum (Finite a)) (JNum (Finite b)) (JNum (Finite c))
                  (select_id_sensor e d) d = (r, d')"
  shows "mediciones d' = mediciones d \<or>
         (\<exists>s. mediciones d' = mediciones d @
                 [\<lparr>m_id_sensor = Some (id_sensor s), temperatura = SNum a, humedad = SNum b,
                   ith = SNum c\<rparr>]
            \<and> s \<in> set (sensores d') \<and> dev_eui s = Some e \<and> r = send 200 ''OK'')"
proof (cases "getOrCreate_resume f e (select_id_sensor e d) d")
  case (Inl err)
  with run show ?thesis by (simp add: webhook_resume_def)
next
  case (Inr p)
  obtain idSensor d1 where p: "p = (idSensor, d1)" by (cases p)
  from getOrCreate_resume_select [OF Inr [unfolded p]] obtain s :: sensor where
    m1: "mediciones d1 = mediciones d" and
    s: "s \<in> set (sensores d1)" "id_sensor s = idSensor" "dev_eui s = Some e" by blast
  show ?thesis
  proof (cases "f 2")
    case (Some err)
    with run Inr p m1 show ?thesis by (simp add: webhook_resume_def)
  next
    case None
    let ?m = "\<lparr>m_id_sensor = Some idSensor, temperatura = SNum a, humedad = SNum b,
               ith = SNum c\<rparr>"
    from run Inr p None have r: "r = send 200 ''OK''"
      and d': "d' = d1\<lparr>mediciones := mediciones d1 @ [?m]\<rparr>"
      by (simp_all add: webhook_resume_def insert_medicion_numeros)
    from d' m1 have "mediciones d' = mediciones d @ [?m]" "sensores d' = sensores d1"
      by simp_all
    with s r show ?thesis by force
  qed
qed

lemma webhook_cases:
  assumes "webhook es my f req_body d = (r, d')"
  shows "d' = d \<or>
    (\<exists>x. normalizarDevEui es (js_prop (js_prop req_body ''end_device_ids'') ''dev_eui'') = Some x
     \<and> truthy x
     \<and> lecturaValida
          (js_prop (js_prop (js_prop req_body ''uplink_message'') ''decoded_payload'') ''temperatura'')
          (js_prop (js_prop (js_prop req_body ''uplink_message'') ''decoded_payload'') ''humedad'')
          (js_prop (js_prop (js_prop req_body ''uplink_message'') ''decoded_payload'') ''ith'')
     \<and> webhook_resume my f (the_str x)
          (js_prop (js_prop (js_prop req_body ''uplink_message'') ''decoded_payload'') ''temperatura'')
          (js_prop (js_prop (js_prop req_body ''uplink_message'') ''decoded_payload'') ''humedad'')
          (js_prop (js_prop (js_prop req_body ''uplink_message'') ''decoded_payload'') ''ith'')
          (select_id_sensor (the_str x) d)
          d = (r, d'))"
  using assms unfolding webhook_def Let_def
  by (simp split: if_splits option.splits)

lemma uplink_props:
  "js_prop (js_prop (uplink eui t h i) ''end_device_ids'') ''dev_eui'' = JStr eui"
  "js_prop (js_prop (uplink eui t h i) ''end_device_ids'') ''device_id'' = JUndefined"
  "js_prop (js_prop (js_prop (uplink eui t h i) ''uplink_message'') ''decoded_payload'') ''temperatura''
     = JNum (Finite t)"
  "js_prop (js_prop (js_prop (uplink eui t h i) ''uplink_message'') ''decoded_payload'') ''humedad''
     = JNum (Finite h)"
  "js_prop (js_prop (js_prop (uplink eui t h i) ''uplink_message'') ''decoded_payload'') ''ith''
     = JNum (Finite i)"
  "truthy (js_prop (js_prop (uplink eui t h i) ''uplink_message'') ''decoded_payload'')"
  "uplink eui t h i \<noteq> JUndefined" "uplink eui t h i \<noteq> JNull"
  by (simp_all add: uplink_def)

text \<open>
  C7, as stated, fails on the cache variant and on the early variant of the webhook: a
  reading of 90 degrees, outside the validator's bounds, is stored, and the row has no
  sensor reference.
\<close>

theorem webhook_cache_stores_unvalidated:
  "webhook_cache my0 no_faults uplink90 (JNull, store0) =
     (send 200 ''OK'', JStr ''0c'',
      store0\<lparr>mediciones :=
        [\<lparr>m_id_sensor = None, temperatura = SNum 90, humedad = SNum 50, ith = SNum 50\<rparr>]\<rparr>)
   \<and> webhook_early my0 no_faults uplink90 store0 =
     (send 200 ''OK'',
      store0\<lparr>mediciones :=
        [\<lparr>m_id_sensor = None, temperatura = SNum 90, humedad = SNum 50, ith = SNum 50\<rparr>]\<rparr>)
   \<and> \<not> lecturaValida (JNum (Finite 90)) (JNum (Finite 50)) (JNum (Finite 50))"
proof -
  have v: "\<not> lecturaValida (JNum (Finite 90)) (JNum (Finite 50)) (JNum (Finite 50))"
    by (simp add: lecturaValida_general)
  have c: "webhook_cache my0 no_faults uplink90 (JNull, store0) =
     (send 200 ''OK'', JStr ''0c'',
      store0\<lparr>mediciones :=
        [\<lparr>m_id_sensor = None, temperatura = SNum 90, humedad = SNum 50, ith = SNum 50\<rparr>]\<rparr>)"
    by code_simp
  have e: "webhook_early my0 no_faults uplink90 store0 =
     (send 200 ''OK'',
      store0\<lparr>mediciones :=
        [\<lparr>m_id_sensor = None, temperatura = SNum 90, humedad = SNum 50, ith = SNum 50\<rparr>]\<rparr>)"
    by code_simp
  from v c e show ?thesis by blast
qed

text \<open>
  C7, amended. The validating variant of the webhook stores at most one Measurement row
  per call; the row refers to a Sensor row of the store whose EUI is the normalized EUI
  of the request, and its values are the three numbers of the request, which satisfy
  the validator's bounds. The cache variant and the early variant call no validator
  and resolve no sensor: a row they store has no sensor reference, and its values
  need not satisfy the bounds: from every store, they store the reading of 90
  degrees.
\<close>

theorem webhook_stores_validated_reading:
  "(webhook es my f req_body d = (r, d') \<longrightarrow>
      mediciones d' = mediciones d \<or>
      (\<exists>a b c s.
         mediciones d' = mediciones d @
           [\<lparr>m_id_sensor = Some (id_sensor s), temperatura = SNum a, humedad = SNum b,
             ith = SNum c\<rparr>]
         \<and> s \<in> set (sensores d')
         \<and> normalizarDevEui es (js_prop (js_prop req_body ''end_device_ids'') ''dev_eui'')
             = Some (JStr (the (dev_eui s)))
         \<and> dev_eui s \<noteq> None
         \<and> js_prop (js_prop (js_prop req_body ''uplink_message'') ''decoded_payload'') ''temperatura''
             = JNum (Finite a)
         \<and> js_prop (js_prop (js_prop req_body ''uplink_message'') ''decoded_payload'') ''humedad''
             = JNum (Finite b)
         \<and> js_prop (js_prop (js_prop req_body ''uplink_message'') ''decoded_payload'') ''ith''
             = JNum (Finite c)
         \<and> lecturaValida (JNum (Finite a)) (JNum (Finite b)) (JNum (Finite c))
         \<and> r = send 200 ''OK''))
   \<and> (webhook_cache my f req_body (k, d) = (r, k', d') \<longrightarrow>
      mediciones d' = mediciones d \<or>
      (\<exists>m. mediciones d' = mediciones d @ [m] \<and> m_id_sensor m = None))
   \<and> (webhook_early my f req_body d = (r, d') \<longrightarrow>
      mediciones d' = mediciones d \<or>
      (\<exists>m. mediciones d' = mediciones d @ [m] \<and> m_id_sensor m = None))
   \<and> (f 0 = None \<longrightarrow>
      webhook_cache my f uplink90 (k, d) =
        (send 200 ''OK'', JStr ''0c'',
         d\<lparr>mediciones := mediciones d @
            [\<lparr>m_id_sensor = None, temperatura = SNum 90, humedad = SNum 50, ith = SNum 50\<rparr>]\<rparr>)
      \<and> webhook_early my f uplink90 d =
        (send 200 ''OK'',
         d\<lparr>mediciones := mediciones d @
            [\<lparr>m_id_sensor = None, temperatura = SNum 90, humedad = SNum 50, ith = SNum 50\<rparr>]\<rparr>)
      \<and> \<not> lecturaValida (JNum (Finite 90)) (JNum (Finite 50)) (JNum (Finite 50)))"
proof (intro conjI impI)
  let ?eui = "normalizarDevEui es (js_prop (js_prop req_body ''end_device_ids'') ''dev_eui'')"
  let ?p = "js_prop (js_prop req_body ''uplink_message'') ''decoded_payload''"
  assume run: "webhook es my f req_body d = (r, d')"
  show "mediciones d' = mediciones d \<or>
      (\<exists>a b c s.
         mediciones d' = mediciones d @
           [\<lparr>m_id_sensor = Some (id_sensor s), temperatura = SNum a, humedad = SNum b,
             ith = SNum c\<rparr>]
         \<and> s \<in> set (sensores d')
         \<and> ?eui = Some (JStr (the (dev_eui s)))
         \<and> dev_eui s \<noteq> None
         \<and> js_prop ?p ''temperatura'' = JNum (Finite a)
         \<and> js_prop ?p ''humedad'' = JNum (Finite b)
         \<and> js_prop ?p ''ith'' = JNum (Finite c)
         \<and> lecturaValida (JNum (Finite a)) (JNum (Finite b)) (JNum (Finite c))
         \<and> r = send 200 ''OK'')"
  proof -
    from webhook_cases [OF run] consider "d' = d"
      | y where "?eui = Some y" and "truthy y" and
        "lecturaValida (js_prop ?p ''temperatura'') (js_prop ?p ''humedad'') (js_prop ?p ''ith'')" and
        "webhook_resume my f (the_str y) (js_prop ?p ''temperatura'')
           (js_prop ?p ''humedad'') (js_prop ?p ''ith'')
           (select_id_sensor (the_str y) d) d = (r, d')"
      by blast
    then show ?thesis
    proof cases
      case 1
      then show ?thesis by simp
    next
      case (2 y)
      from normalizarDevEui_Some [OF 2(1)] 2(2) obtain x where x: "y = JStr x"
        by auto
      then have tx: "the_str y = x" by simp
      from 2(3) obtain a b c where
        abc: "js_prop ?p ''temperatura'' = JNum (Finite a)"
             "js_prop ?p ''humedad'' = JNum (Finite b)"
             "js_prop ?p ''ith'' = JNum (Finite c)"
        unfolding lecturaValida_general by blast
      from 2(3) have val: "lecturaValida (JNum (Finite a)) (JNum (Finite b)) (JNum (Finite c))"
        unfolding abc .
      from webhook_resume_select [OF 2(4) [unfolded tx abc]]
      consider "mediciones d' = mediciones d"
        | s :: sensor where
            "mediciones d' = mediciones d @
               [\<lparr>m_id_sensor = Some (id_sensor s), temperatura = SNum a, humedad = SNum b,
                 ith = SNum c\<rparr>]"
            "s \<in> set (sensores d')" "dev_eui s = Some x" "r = send 200 ''OK''"
        by blast
      then show ?thesis
      proof cases
        case 1
        then show ?thesis by simp
      next
        case (2 s)
        from 2(3) have e1: "Some y = Some (JStr (the (dev_eui s)))" and e2: "dev_eui s \<noteq> None"
          using x by simp_all
        from 2(1,2,4) e1 e2 abc val \<open>?eui = Some y\<close> show ?thesis
          by (intro disjI2 exI [of _ a] exI [of _ b] exI [of _ c] exI [of _ s]) simp
      qed
    qed
  qed
next
  assume "webhook_cache my f req_body (k, d) = (r, k', d')"
  then show "mediciones d' = mediciones d \<or>
      (\<exists>m. mediciones d' = mediciones d @ [m] \<and> m_id_sensor m = None)"
    by (auto simp: webhook_cache_def Let_def split: if_splits option.splits sum.splits
        dest!: insert_medicion_Inr)
next
  assume "webhook_early my f req_body d = (r, d')"
  then show "mediciones d' = mediciones d \<or>
      (\<exists>m. mediciones d' = mediciones d @ [m] \<and> m_id_sensor m = None)"
    by (auto simp: webhook_early_def Let_def split: if_splits option.splits sum.splits
        dest!: insert_medicion_Inr)
next
  assume f0: "f 0 = None"
  show "webhook_cache my f uplink90 (k, d) =
        (send 200 ''OK'', JStr ''0c'',
         d\<lparr>mediciones := mediciones d @
            [\<lparr>m_id_sensor = None, temperatura = SNum 90, humedad = SNum 50, ith = SNum 50\<rparr>]\<rparr>)"
    using f0
    by (simp add: webhook_cache_def Let_def uplink90_def uplink_props insert_medicion_numeros
        js_or_def)
next
  assume f0: "f 0 = None"
  show "webhook_early my f uplink90 d =
        (send 200 ''OK'',
         d\<lparr>mediciones := mediciones d @
            [\<lparr>m_id_sensor = None, temperatura = SNum 90, humedad = SNum 50, ith = SNum 50\<rparr>]\<rparr>)"
    using f0
    by (simp add: webhook_early_def Let_def uplink90_def uplink_props insert_medicion_numeros)
next
  show "\<not> lecturaValida (JNum (Finite 90)) (JNum (Finite 50)) (JNum (Finite 50))"
    by (simp add: lecturaValida_general)
qed

theorem webhook_stores_validated_reading_witness:
  "webhook es0 my0 no_faults (uplink ''0c'' 25 60 70) store0 =
     (send 200 ''OK'',
      store1\<lparr>mediciones :=
        [\<lparr>m_id_sensor = Some 2, temperatura = SNum 25, humedad = SNum 60, ith = SNum 70\<rparr>]\<rparr>)
   \<and> (\<exists>a b c s. mediciones (store1\<lparr>mediciones :=
        [\<lparr>m_id_sensor = Some 2, temperatura = SNum 25, humedad = SNum 60, ith = SNum 70\<rparr>]\<rparr>)
          = mediciones store0 @
              [\<lparr>m_id_sensor = Some (id_sensor s), temperatura = SNum a, humedad = SNum b,
                ith = SNum c\<rparr>]
        \<and> s \<in> set (sensores store1)
        \<and> dev_eui s = Some ''0C''
        \<and> lecturaValida (JNum (Finite a)) (JNum (Finite b)) (JNum (Finite c)))
   \<and> no_faults 0 = None
   \<and> webhook_cache my0 no_faults uplink90 (JNull, store0) =
       (send 200 ''OK'', JStr ''0c'',
        store0\<lparr>mediciones :=
          [\<lparr>m_id_sensor = None, temperatura = SNum 90, humedad = SNum 50, ith = SNum 50\<rparr>]\<rparr>)
   \<and> webhook_early my0 no_faults uplink90 store0 =
       (send 200 ''OK'',
        store0\<lparr>mediciones :=
          [\<lparr>m_id_sensor = None, temperatura = SNum 90, humedad = SNum 50, ith = SNum 50\<rparr>]\<rparr>)
   \<and> (\<exists>m. mediciones (store0\<lparr>mediciones :=
          [\<lparr>m_id_sensor = None, temperatura = SNum 90, humedad = SNum 50, ith = SNum 50\<rparr>]\<rparr>)
          = mediciones store0 @ [m] \<and> m_id_sensor m = None)"
proof -
  let ?b = "uplink ''0c'' 25 60 70"
  let ?m = "\<lparr>m_id_sensor = Some 2, temperatura = SNum 25, humedad = SNum 60, ith = SNum 70\<rparr>"
  let ?n = "\<lparr>m_id_sensor = None, temperatura = SNum 90, humedad = SNum 50, ith = SNum 50\<rparr>"
  have w: "webhook es0 my0 no_faults ?b store0 = (send 200 ''OK'', store1\<lparr>mediciones := [?m]\<rparr>)"
    by code_simp
  have eui: "normalizarDevEui es0 (js_prop (js_prop ?b ''end_device_ids'') ''dev_eui'')
               = Some (JStr ''0C'')"
    by code_simp
  have m0: "mediciones store0 = []" by (simp add: store0_def)
  have f0: "no_faults 0 = None" by (simp add: no_faults_def)
  have ne: "mediciones (store1\<lparr>mediciones := [?m]\<rparr>) \<noteq> mediciones store0"
    by (simp add: m0)
  have ne2: "JStr ''0c'' \<noteq> JStr []" "''0c'' \<noteq> []" by simp_all
  note inst = webhook_stores_validated_reading
    [of es0 my0 no_faults ?b store0 "send 200 ''OK''" "store1\<lparr>mediciones := [?m]\<rparr>"
        JNull JNull]
  note inst2 = webhook_stores_validated_reading
    [of es0 my0 no_faults uplink90 store0 "send 200 ''OK''"
        "store0\<lparr>mediciones := [?n]\<rparr>" JNull "JStr ''0c''"]
  from inst w ne obtain a b c and s :: sensor where
    ms: "mediciones (store1\<lparr>mediciones := [?m]\<rparr>) = mediciones store0 @
           [\<lparr>m_id_sensor = Some (id_sensor s), temperatura = SNum a, humedad = SNum b,
             ith = SNum c\<rparr>]"
      "s \<in> set (sensores (store1\<lparr>mediciones := [?m]\<rparr>))"
      "normalizarDevEui es0 (js_prop (js_prop ?b ''end_device_ids'') ''dev_eui'')
         = Some (JStr (the (dev_eui s)))"
      "dev_eui s \<noteq> None"
      "lecturaValida (JNum (Finite a)) (JNum (Finite b)) (JNum (Finite c))"
    by blast
  from ms(3,4) eui have "dev_eui s = Some ''0C''" by auto
  moreover from ms(2) have "s \<in> set (sensores store1)" by simp
  ultimately have ex: "\<exists>a b c s. mediciones (store1\<lparr>mediciones := [?m]\<rparr>) = mediciones store0 @
           [\<lparr>m_id_sensor = Some (id_sensor s), temperatura = SNum a, humedad = SNum b,
             ith = SNum c\<rparr>]
        \<and> s \<in> set (sensores store1)
        \<and> dev_eui s = Some ''0C''
        \<and> lecturaValida (JNum (Finite a)) (JNum (Finite b)) (JNum (Finite c))"
    using ms(1,5) by blast
  from inst f0 have c: "webhook_cache my0 no_faults uplink90 (JNull, store0) =
       (send 200 ''OK'', JStr ''0c'', store0\<lparr>mediciones := [?n]\<rparr>)"
    and e: "webhook_early my0 no_faults uplink90 store0 =
       (send 200 ''OK'', store0\<lparr>mediciones := [?n]\<rparr>)"
    by (simp_all add: m0)
  have ne3: "mediciones (store0\<lparr>mediciones := [?n]\<rparr>) \<noteq> mediciones store0"
    by (simp add: m0)
  from inst2 c ne3 have row: "\<exists>m. mediciones (store0\<lparr>mediciones := [?n]\<rparr>)
          = mediciones store0 @ [m] \<and> m_id_sensor m = None"
    by blast
  from w ex f0 c e row show ?thesis by blast
qed

section \<open>Concurrent first sight of a device\<close>

text \<open>
  C8, as stated, fails. Two requests see the device \<^verbatim>\<open>0C\<close> for the first time: the
  SELECT of the first finds no row in \<open>store0\<close>; the second request then runs to its
  end and leaves \<open>store1\<close>; the INSERT of the first fails with the duplicate-entry
  error. \<open>getOrCreateSensorByDevEui\<close> has no handler for it: the first request does not
  return the id 2 of the row that exists by then, and its webhook answers 500.
\<close>

theorem getOrCreate_race_no_retry:
  "select_id_sensor ''0C'' store0 = []
   \<and> getOrCreateSensorByDevEui no_faults ''0C'' store0 = Inr (2, store1)
   \<and> getOrCreate_resume no_faults ''0C'' (select_id_sensor ''0C'' store0) store1
       = Inl ER_DUP_ENTRY
   \<and> webhook_resume my0 no_faults ''0C'' (JNum (Finite 25)) (JNum (Finite 60)) (JNum (Finite 70))
        (select_id_sensor ''0C'' store0) store1
       = (send 500 ''Error en base de datos'', store1)"
  by code_simp

text \<open>
  C8, amended. When the lookup of a caller of resolve-or-create has found no row and,
  by the time of its insert, another caller has registered the EUI, the insert fails
  with the duplicate-insert error and the caller does not retry the lookup: the error
  leaves \<open>getOrCreateSensorByDevEui\<close>, the webhook answers with the storage-error
  status (HTTP 500) and stores nothing. The store keeps its one row for the EUI, and a
  repetition of the call finds it and returns its id.
\<close>

theorem getOrCreate_race_propagates:
  assumes "s \<in> set (sensores d1)" and "dev_eui s = Some e" and "f 1 = None"
  shows "getOrCreate_resume f e [] d1 = Inl ER_DUP_ENTRY
         \<and> webhook_resume my f e t h i [] d1 = (error_bd, d1)
         \<and> status error_bd = 500
         \<and> (\<exists>s'. s' \<in> set (sensores d1) \<and> dev_eui s' = Some e
               \<and> getOrCreateSensorByDevEui no_faults e d1 = Inr (id_sensor s', d1))"
proof -
  have dup: "getOrCreate_resume f e [] d1 = Inl ER_DUP_ENTRY"
    using assms(3) insert_sensor_dup [OF assms(1,2)]
    by (simp add: getOrCreate_resume_def)
  then have w: "webhook_resume my f e t h i [] d1 = (error_bd, d1)"
    by (simp add: webhook_resume_def)
  have st: "status error_bd = 500" by (simp add: error_bd_def send_def)
  from getOrCreate_found [OF assms(1,2)] have
    "\<exists>s'. s' \<in> set (sensores d1) \<and> dev_eui s' = Some e
        \<and> getOrCreateSensorByDevEui no_faults e d1 = Inr (id_sensor s', d1)"
    by blast
  with dup w st show ?thesis by blast
qed

theorem getOrCreate_race_propagates_witness:
  "getOrCreate_resume no_faults ''0C'' [] store1 = Inl ER_DUP_ENTRY
   \<and> webhook_resume my0 no_faults ''0C'' JNull JNull JNull [] store1 = (error_bd, store1)
   \<and> new_sensor 2 ''TTN-0C'' (Some ''0C'') None \<in> set (sensores store1)"
proof -
  have a: "new_sensor 2 ''TTN-0C'' (Some ''0C'') None \<in> set (sensores store1)"
    by (simp add: store1_def)
  have b: "dev_eui (new_sensor 2 ''TTN-0C'' (Some ''0C'') None) = Some ''0C''"
    by (simp add: new_sensor_def)
  have c: "no_faults 1 = None" by (simp add: no_faults_def)
  from getOrCreate_race_propagates [where f = no_faults and my = my0 and t = JNull and h = JNull and i = JNull, OF a b c] a
  show ?thesis by blast
qed

section \<open>Downlink relay\<close>

lemma take1_map_filter:
  "take 1 (map g (filter P xs)) = (case find P xs of None \<Rightarrow> [] | Some x \<Rightarrow> [g x])"
  by (induction xs) simp_all

lemma select_app_device_find:
  "select_app_device my eui d =
     (case find (\<lambda>s. dev_eui s \<noteq> None \<and> sql_UPPER my (sql_TRIM (the (dev_eui s))) = eui) (sensores d) of
        None \<Rightarrow> []
      | Some s \<Rightarrow> [(app_id s, device_id s)])"
  unfolding select_app_device_def by (rule take1_map_filter)

lemma downlink_unfold:
  "downlink es my api_key ttn f req_body d =
     (if \<not> truthy (js_prop (js_or req_body (JObj [])) ''dev_eui'')
         \<or> \<not> truthy (js_prop (js_or req_body (JObj [])) ''cmd'')
      then (json_error 400 ''faltan_campos'', [])
      else case js_String es (js_prop (js_or req_body (JObj [])) ''dev_eui'') of
        None \<Rightarrow> (json_error 500 ''downlink_error'', [])
      | Some str \<Rightarrow>
      (case f 0 of
        Some e \<Rightarrow> (json_error 500 ''downlink_error'', [])
      | None \<Rightarrow>
          (case find (\<lambda>s. dev_eui s \<noteq> None \<and> sql_UPPER my (sql_TRIM (the (dev_eui s))) =
                    toUpperCase es (js_trim str))
                 (sensores d) of
             None \<Rightarrow> (json_error 404 ''sensor_no_encontrado'', [])
           | Some s \<Rightarrow>
               if \<not> truthy_str (app_id s) \<or> \<not> truthy_str (device_id s) then
                 (json_error 409 ''falta_app_o_device_id'', [])
               else if \<not> truthy_str api_key then
                 (json_error 500 ''ttn_api_key_no_configurada'', [])
               else
                 (case js_String es (js_prop (js_or req_body (JObj [])) ''cmd'') of
                    None \<Rightarrow> (json_error 500 ''downlink_error'', [])
                  | Some texto \<Rightarrow>
                 (case ttn of
                    FetchThrows \<Rightarrow> json_error 500 ''downlink_error''
                  | FetchResponse ok st text \<Rightarrow>
                      if \<not> ok then
                        json 502 [(''error'', JStr ''ttn_error''),
                                  (''status'', JNum (Finite (of_nat st))),
                                  (''detail'', JStr text)]
                      else json 200 [(''ok'', JBool True)],
                  [\<lparr>url = ''https://eu1.cloud.thethings.network/api/v3/as/applications/''
                            @ the (app_id s) @ ''/devices/'' @ the (device_id s) @ ''/down/push'',
                    authorization = ''Bearer '' @ the api_key,
                    f_port = 1,
                    frm_payload = base64 (utf8 texto),
                    priority = ''NORMAL''\<rparr>])))))"
  unfolding downlink_def Let_def select_app_device_find
  by (simp split: option.split fetch_result.split)

lemma js_or_truthy_prop: "truthy (js_prop req_body k) \<Longrightarrow> js_or req_body (JObj []) = req_body"
  by (cases req_body) (simp_all add: js_or_def)

lemma downlink_409:
  assumes "truthy (js_prop req_body ''dev_eui'')"
    and "truthy (js_prop req_body ''cmd'')"
    and "f 0 = None"
    and "js_String es (js_prop req_body ''dev_eui'') = Some str"
    and "find (\<lambda>s. dev_eui s \<noteq> None \<and> sql_UPPER my (sql_TRIM (the (dev_eui s))) =
                  toUpperCase es (js_trim str))
           (sensores d) = Some s"
    and "\<not> truthy_str (app_id s) \<or> \<not> truthy_str (device_id s)"
  shows "downlink es my api_key ttn f req_body d = (json_error 409 ''falta_app_o_device_id'', [])
         \<and> status (json_error 409 ''falta_app_o_device_id'') = 409
         \<and> (\<forall>api_key' ttn' f' req_body'.
               (\<forall>str'. js_String es (js_prop req_body' ''dev_eui'') = Some str' \<longrightarrow>
                  find (\<lambda>s. dev_eui s \<noteq> None \<and> sql_UPPER my (sql_TRIM (the (dev_eui s))) =
                     toUpperCase es (js_trim str'))
                    (sensores d) = Some s)
               \<longrightarrow> snd (downlink es my api_key' ttn' f' req_body' d) = [])"
proof -
  have b: "js_or req_body (JObj []) = req_body"
    using assms(1) by (rule js_or_truthy_prop)
  have a: "downlink es my api_key ttn f req_body d = (json_error 409 ''falta_app_o_device_id'', [])"
    using assms by (simp add: downlink_unfold b)
  have st: "status (json_error 409 ''falta_app_o_device_id'') = 409"
    by (simp add: json_error_def json_def)
  have none: "snd (downlink es my api_key' ttn' f' req_body' d) = []"
    if found: "\<forall>str'. js_String es (js_prop req_body' ''dev_eui'') = Some str' \<longrightarrow>
                  find (\<lambda>s. dev_eui s \<noteq> None \<and> sql_UPPER my (sql_TRIM (the (dev_eui s))) =
                     toUpperCase es (js_trim str'))
                    (sensores d) = Some s"
    for api_key' ttn' f' req_body'
  proof (cases "truthy (js_prop (js_or req_body' (JObj [])) ''dev_eui'')")
    case False
    then show ?thesis by (simp add: downlink_unfold)
  next
    case True
    then have "truthy (js_prop req_body' ''dev_eui'')"
      by (cases req_body') (simp_all add: js_or_def split: if_splits)
    then have b': "js_or req_body' (JObj []) = req_body'" by (rule js_or_truthy_prop)
    show ?thesis
    proof (cases "js_String es (js_prop req_body' ''dev_eui'')")
      case None
      then show ?thesis by (simp add: downlink_unfold b')
    next
      case (Some str')
      with found have "find (\<lambda>s. dev_eui s \<noteq> None \<and> sql_UPPER my (sql_TRIM (the (dev_eui s))) =
                     toUpperCase es (js_trim str'))
                    (sensores d) = Some s"
        by blast
      with Some assms(6) show ?thesis
        by (simp add: downlink_unfold b' split: option.split)
    qed
  qed
  from a st none show ?thesis by blast
qed

text \<open>
  C9. A downlink request that names a device and a command, and whose EUI matches a
  Sensor row that lacks the application id or the device id (\<^verbatim>\<open>null\<close> or empty), is
  answered with the configuration-error status (HTTP 409), and no request is sent to the
  network server. The Sensor is the row the lookup returns: the first row whose stored
  EUI, trimmed and in upper case, is the EUI of the request, trimmed and in upper case;
  a request whose EUI has no string (\<^verbatim>\<open>String(dev_eui)\<close> throws) matches no row.
  Whatever the request, a call to the network server is made only for a Sensor that has
  both fields.
\<close>

theorem downlink_missing_addressing:
  assumes "truthy (js_prop req_body ''dev_eui'')"
    and "truthy (js_prop req_body ''cmd'')"
    and "f 0 = None"
    and "find (\<lambda>s. dev_eui s \<noteq> None \<and> Some (sql_UPPER my (sql_TRIM (the (dev_eui s)))) =
                  map_option (\<lambda>str. toUpperCase es (js_trim str))
                    (js_String es (js_prop req_body ''dev_eui'')))
           (sensores d) = Some s"
    and "\<not> truthy_str (app_id s) \<or> \<not> truthy_str (device_id s)"
  shows "downlink es my api_key ttn f req_body d = (json_error 409 ''falta_app_o_device_id'', [])
         \<and> status (json_error 409 ''falta_app_o_device_id'') = 409
         \<and> (\<forall>api_key' ttn' f' req_body'.
               find (\<lambda>s. dev_eui s \<noteq> None \<and> Some (sql_UPPER my (sql_TRIM (the (dev_eui s)))) =
                  map_option (\<lambda>str. toUpperCase es (js_trim str))
                    (js_String es (js_prop req_body' ''dev_eui'')))
                 (sensores d) = Some s
               \<longrightarrow> snd (downlink es my api_key' ttn' f' req_body' d) = [])"
proof -
  from assms(4) have "Some (sql_UPPER my (sql_TRIM (the (dev_eui s)))) =
      map_option (\<lambda>str. toUpperCase es (js_trim str)) (js_String es (js_prop req_body ''dev_eui''))"
    by (auto simp: find_Some_iff)
  then obtain str where str: "js_String es (js_prop req_body ''dev_eui'') = Some str"
    by (cases "js_String es (js_prop req_body ''dev_eui'')") simp_all
  from assms(4) have found: "find (\<lambda>s. dev_eui s \<noteq> None \<and> sql_UPPER my (sql_TRIM (the (dev_eui s))) =
                  toUpperCase es (js_trim str))
           (sensores d) = Some s"
    unfolding str by simp
  note l = downlink_409 [where f = f and api_key = api_key and ttn = ttn,
      OF assms(1,2,3) str found assms(5)]
  have none: "snd (downlink es my api_key' ttn' f' req_body' d) = []"
    if h: "find (\<lambda>s. dev_eui s \<noteq> None \<and> Some (sql_UPPER my (sql_TRIM (the (dev_eui s)))) =
                  map_option (\<lambda>str. toUpperCase es (js_trim str))
                    (js_String es (js_prop req_body' ''dev_eui'')))
                 (sensores d) = Some s"
    for api_key' ttn' f' req_body'
  proof -
    have "\<forall>str'. js_String es (js_prop req_body' ''dev_eui'') = Some str' \<longrightarrow>
                  find (\<lambda>s. dev_eui s \<noteq> None \<and> sql_UPPER my (sql_TRIM (the (dev_eui s))) =
                     toUpperCase es (js_trim str'))
                    (sensores d) = Some s"
    proof (intro allI impI)
      fix str'
      assume "js_String es (js_prop req_body' ''dev_eui'') = Some str'"
      with h show "find (\<lambda>s. dev_eui s \<noteq> None \<and> sql_UPPER my (sql_TRIM (the (dev_eui s))) =
                     toUpperCase es (js_trim str'))
                    (sensores d) = Some s"
        by simp
    qed
    with l show ?thesis by blast
  qed
  from l none show ?thesis by blast
qed

theorem downlink_missing_addressing_witness:
  "downlink es0 my0 (Some ''NNSXS'') (FetchResponse True 200 []) no_faults enciende store2
     = (json_error 409 ''falta_app_o_device_id'', [])
   \<and> find (\<lambda>s. dev_eui s \<noteq> None \<and> Some (sql_UPPER my0 (sql_TRIM (the (dev_eui s)))) =
                  map_option (\<lambda>str. toUpperCase es0 (js_trim str))
                    (js_String es0 (js_prop enciende ''dev_eui'')))
           (sensores store2) = Some (hd (sensores store2))
   \<and> app_id (hd (sensores store2)) = None"
proof -
  have h1: "truthy (js_prop enciende ''dev_eui'')" by code_simp
  have h2: "truthy (js_prop enciende ''cmd'')" by code_simp
  have h3: "no_faults 0 = None" by (simp add: no_faults_def)
  have h4: "find (\<lambda>s. dev_eui s \<noteq> None \<and> Some (sql_UPPER my0 (sql_TRIM (the (dev_eui s)))) =
                  map_option (\<lambda>str. toUpperCase es0 (js_trim str))
                    (js_String es0 (js_prop enciende ''dev_eui'')))
           (sensores store2) = Some (hd (sensores store2))"
    by code_simp
  have h5: "app_id (hd (sensores store2)) = None" by code_simp
  then have h6: "\<not> truthy_str (app_id (hd (sensores store2)))
                 \<or> \<not> truthy_str (device_id (hd (sensores store2)))"
    by (simp add: truthy_str_def)
  from downlink_missing_addressing [where f = no_faults, OF h1 h2 h3 h4 h6] h4 h5
  show ?thesis by blast
qed

section \<open>Metadata update\<close>

lemma update_dev_eui_Inr:
  "update_dev_eui e i rows = Inr rows2 \<Longrightarrow>
     rows2 = sql_update (sin_dev_eui i) (\<lambda>s. s\<lparr>dev_eui := Some e\<rparr>) rows"
  by (simp add: update_dev_eui_def Let_def split: if_splits)

lemma actualizar_try_Inr:
  assumes "actualizar_try f now b rows = Inr (n, rows2)"
  shows "n = affectedRows (where_actualizar b) rows
     \<and> f 1 = None \<and> f 2 = None \<and> f 4 = None
     \<and> (if truthy_id (b_id_sensor b) \<and> truthy_str (b_dev_eui b)
        then f 3 = None \<and>
             update_dev_eui (the (b_dev_eui b)) (the (b_id_sensor b))
               (sql_update (where_actualizar b) (set_campos now b) rows) = Inr rows2
        else rows2 = sql_update (where_actualizar b) (set_campos now b) rows)"
proof (cases "truthy_id (b_id_sensor b) \<and> truthy_str (b_dev_eui b)")
  case True
  then have c: "(truthy_id (b_id_sensor b) \<and> truthy_str (b_dev_eui b)) = True" by simp
  from assms show ?thesis
    unfolding actualizar_try_def Let_def c
    by (simp split: option.splits sum.splits)
next
  case False
  then have c: "(truthy_id (b_id_sensor b) \<and> truthy_str (b_dev_eui b)) = False" by simp
  from assms show ?thesis
    unfolding actualizar_try_def Let_def c
    by (simp split: option.splits)
qed

lemma actualizar_cases:
  assumes "actualizar f now b (d, leased) = (r, d', l')"
  shows "(d' = d \<and> (\<forall>x. r = Some x \<longrightarrow> status x \<noteq> 200))
     \<or> (\<exists>n rows2. actualizar_try f now b (sensores d) = Inr (n, rows2)
           \<and> d' = d\<lparr>sensores := rows2\<rparr>
           \<and> r = Some (json 200 [(''ok'', JBool True),
                                  (''affected'', JNum (Finite (of_nat n)))]))"
proof (cases "actualizar_try f now b (sensores d)")
  case (Inl e)
  with assms show ?thesis
    unfolding actualizar_def Let_def
    by (auto simp: json_error_def json_def split: if_splits option.splits sum.splits)
next
  case (Inr p)
  obtain n rows2 where p: "p = (n, rows2)" by (cases p)
  with Inr assms show ?thesis
    unfolding actualizar_def Let_def
    by (auto simp: json_error_def json_def split: if_splits option.splits sum.splits)
qed

lemma set_campos_keeps:
  "id_sensor (set_campos now b s) = id_sensor s"
  "dev_eui (set_campos now b s) = dev_eui s"
  "sin_dev_eui i (set_campos now b s) = sin_dev_eui i s"
  by (simp_all add: set_campos_def sin_dev_eui_def)

lemma actualizar_try_rows:
  assumes "actualizar_try f now b rows = Inr (n, rows2)"
  shows "rows2 =
     map (\<lambda>s. if truthy_id (b_id_sensor b) \<and> truthy_str (b_dev_eui b)
                   \<and> sin_dev_eui (the (b_id_sensor b)) s
                then (if where_actualizar b s then set_campos now b s else s)
                       \<lparr>dev_eui := b_dev_eui b\<rparr>
                else (if where_actualizar b s then set_campos now b s else s)) rows"
proof (cases "truthy_id (b_id_sensor b) \<and> truthy_str (b_dev_eui b)")
  case False
  with actualizar_try_Inr [OF assms]
  have "rows2 = sql_update (where_actualizar b) (set_campos now b) rows" by simp
  with False show ?thesis
    by (auto simp: sql_update_def)
next
  case True
  then have e: "Some (the (b_dev_eui b)) = b_dev_eui b"
    by (auto simp: truthy_str_def)
  from True actualizar_try_Inr [OF assms]
  have "update_dev_eui (the (b_dev_eui b)) (the (b_id_sensor b))
          (sql_update (where_actualizar b) (set_campos now b) rows) = Inr rows2"
    by simp
  from update_dev_eui_Inr [OF this] True show ?thesis
    by (simp add: sql_update_def e o_def set_campos_keeps)
qed

lemma actualizar_rows:
  "sensores (fst (snd (actualizar f now b (d, leased)))) = sensores d
   \<and> (\<forall>x. fst (actualizar f now b (d, leased)) = Some x \<longrightarrow> status x \<noteq> 200)
   \<or> sensores (fst (snd (actualizar f now b (d, leased)))) =
     map (\<lambda>s. if truthy_id (b_id_sensor b) \<and> truthy_str (b_dev_eui b)
                   \<and> sin_dev_eui (the (b_id_sensor b)) s
                then (if where_actualizar b s then set_campos now b s else s)
                       \<lparr>dev_eui := b_dev_eui b\<rparr>
                else (if where_actualizar b s then set_campos now b s else s)) (sensores d)"
proof -
  obtain r d' l' where run: "actualizar f now b (d, leased) = (r, d', l')"
    by (cases "actualizar f now b (d, leased)")
  from actualizar_cases [OF run] show ?thesis
  proof
    assume "d' = d \<and> (\<forall>x. r = Some x \<longrightarrow> status x \<noteq> 200)"
    with run show ?thesis by simp
  next
    assume "\<exists>n rows2. actualizar_try f now b (sensores d) = Inr (n, rows2)
           \<and> d' = d\<lparr>sensores := rows2\<rparr>
           \<and> r = Some (json 200 [(''ok'', JBool True),
                                  (''affected'', JNum (Finite (of_nat n)))])"
    then obtain n rows2 where t: "actualizar_try f now b (sensores d) = Inr (n, rows2)"
      and d': "d' = d\<lparr>sensores := rows2\<rparr>" by blast
    from actualizar_try_rows [OF t] d' run show ?thesis by simp
  qed
qed

subsection \<open>The request as it is received, on fields of the types of the columns\<close>

lemma campo_natural_truthy: "campo_natural v = Some i \<Longrightarrow> truthy v = truthy_id i"
proof (cases v)
  case (JNum n)
  assume a: "campo_natural v = Some i"
  show ?thesis
  proof (cases n)
    case (Finite q)
    with a JNum have q: "of_int \<lfloor>q\<rfloor> = q" "0 \<le> q" and i: "i = Some (nat \<lfloor>q\<rfloor>)"
      by (auto split: if_splits)
    from q have "(q = 0) = (nat \<lfloor>q\<rfloor> = 0)"
      by (metis floor_zero nat_0_iff of_int_0 zero_le_floor order_antisym)
    with JNum Finite i show ?thesis by (simp add: truthy_id_def)
  next
    case PosInf
    with a JNum show ?thesis by simp
  next
    case NegInf
    with a JNum show ?thesis by simp
  qed
qed (auto simp: truthy_id_def)

lemma campo_texto_truthy: "campo_texto v = Some e \<Longrightarrow> truthy v = truthy_str e"
  by (cases v) (auto simp: truthy_str_def)

lemma campo_texto_JStr: "campo_texto v = Some e \<Longrightarrow> truthy v \<Longrightarrow> v = JStr (the e)"
  by (cases v) auto

lemma campo_natural_the:
  "campo_natural v = Some i \<Longrightarrow> truthy v \<Longrightarrow> campo_natural v = Some (Some (the i))"
proof (cases v)
  case (JNum n)
  assume "campo_natural v = Some i"
  with JNum show ?thesis by (cases n) (auto split: if_splits)
qed auto

lemma decode_textos_Some:
  assumes "decode_textos req_body = Some b"
  shows "req_body \<noteq> JUndefined" "req_body \<noteq> JNull"
    "campo_texto (js_prop req_body ''modelo'') = Some (b_modelo b)"
    "campo_texto (js_prop req_body ''area'') = Some (b_area b)"
    "campo_texto (js_prop req_body ''zona'') = Some (b_zona b)"
    "campo_texto (js_prop req_body ''sala'') = Some (b_sala b)"
    "campo_texto (js_prop req_body ''modo'') = Some (b_modo b)"
  using assms
  by (auto simp: decode_textos_def bind_eq_Some_conv split: if_splits)

lemma decode_campos_Some:
  assumes "decode_campos req_body = Some b"
  shows "req_body \<noteq> JUndefined" "req_body \<noteq> JNull"
    "campo_texto (js_prop req_body ''modelo'') = Some (b_modelo b)"
    "campo_texto (js_prop req_body ''area'') = Some (b_area b)"
    "campo_texto (js_prop req_body ''zona'') = Some (b_zona b)"
    "campo_texto (js_prop req_body ''sala'') = Some (b_sala b)"
    "campo_texto (js_prop req_body ''modo'') = Some (b_modo b)"
    "campo_entero (js_prop req_body ''umbral_ith'') = Some (b_umbral_ith b)"
proof -
  from assms obtain b0 u where b0: "decode_textos req_body = Some b0"
    and u: "campo_entero (js_prop req_body ''umbral_ith'') = Some u"
    and b: "b = b0\<lparr>b_umbral_ith := u\<rparr>"
    by (auto simp: decode_campos_def bind_eq_Some_conv)
  from decode_textos_Some [OF b0] u b
  show "req_body \<noteq> JUndefined" "req_body \<noteq> JNull"
    "campo_texto (js_prop req_body ''modelo'') = Some (b_modelo b)"
    "campo_texto (js_prop req_body ''area'') = Some (b_area b)"
    "campo_texto (js_prop req_body ''zona'') = Some (b_zona b)"
    "campo_texto (js_prop req_body ''sala'') = Some (b_sala b)"
    "campo_texto (js_prop req_body ''modo'') = Some (b_modo b)"
    "campo_entero (js_prop req_body ''umbral_ith'') = Some (b_umbral_ith b)"
    by simp_all
qed

lemma decode_actualizar_Some:
  assumes "decode_actualizar req_body = Some b"
  shows "req_body \<noteq> JUndefined" "req_body \<noteq> JNull"
    "campo_texto (js_prop req_body ''modelo'') = Some (b_modelo b)"
    "campo_texto (js_prop req_body ''area'') = Some (b_area b)"
    "campo_texto (js_prop req_body ''zona'') = Some (b_zona b)"
    "campo_texto (js_prop req_body ''sala'') = Some (b_sala b)"
    "campo_texto (js_prop req_body ''modo'') = Some (b_modo b)"
    "campo_entero (js_prop req_body ''umbral_ith'') = Some (b_umbral_ith b)"
    "campo_natural (js_prop req_body ''id_sensor'') = Some (b_id_sensor b)"
    "campo_texto (js_prop req_body ''dev_eui'') = Some (b_dev_eui b)"
    "campo_texto (js_prop req_body ''dev_id'') = Some (b_dev_id b)"
proof -
  from assms obtain b0 i e di where b0: "decode_campos req_body = Some b0"
    and k: "campo_natural (js_prop req_body ''id_sensor'') = Some i"
      "campo_texto (js_prop req_body ''dev_eui'') = Some e"
      "campo_texto (js_prop req_body ''dev_id'') = Some di"
    and b: "b = b0\<lparr>b_id_sensor := i, b_dev_eui := e, b_dev_id := di\<rparr>"
    by (auto simp: decode_actualizar_def decode_claves_def bind_eq_Some_conv)
  from decode_campos_Some [OF b0] k b
  show "req_body \<noteq> JUndefined" "req_body \<noteq> JNull"
    "campo_texto (js_prop req_body ''modelo'') = Some (b_modelo b)"
    "campo_texto (js_prop req_body ''area'') = Some (b_area b)"
    "campo_texto (js_prop req_body ''zona'') = Some (b_zona b)"
    "campo_texto (js_prop req_body ''sala'') = Some (b_sala b)"
    "campo_texto (js_prop req_body ''modo'') = Some (b_modo b)"
    "campo_entero (js_prop req_body ''umbral_ith'') = Some (b_umbral_ith b)"
    "campo_natural (js_prop req_body ''id_sensor'') = Some (b_id_sensor b)"
    "campo_texto (js_prop req_body ''dev_eui'') = Some (b_dev_eui b)"
    "campo_texto (js_prop req_body ''dev_id'') = Some (b_dev_id b)"
    by simp_all
qed

lemma vincular_dev_eui_decoded:
  assumes "campo_natural i = Some bi" and "campo_texto e = Some be"
    and "truthy i" and "truthy e"
  shows "vincular_dev_eui my e i rows = update_dev_eui (the be) (the bi) rows"
proof -
  from campo_texto_JStr [OF assms(2,4)] have e: "e = JStr (the be)" .
  from campo_natural_the [OF assms(1,3)] have i: "campo_natural i = Some (Some (the bi))" .
  show ?thesis
    unfolding vincular_dev_eui_def i by (subst e) simp
qed

lemma put_actualizar_try_decoded:
  assumes "decode_actualizar req_body = Some b"
  shows "put_actualizar_try my f now req_body rows = actualizar_try f now b rows"
proof -
  note dec = decode_actualizar_Some [OF assms]
  have ti: "truthy (js_prop req_body ''id_sensor'') = truthy_id (b_id_sensor b)"
    by (rule campo_natural_truthy [OF dec(9)])
  have te: "truthy (js_prop req_body ''dev_eui'') = truthy_str (b_dev_eui b)"
    by (rule campo_texto_truthy [OF dec(10)])
  have up: "update_campos my now req_body rows =
      Inr (affectedRows (where_actualizar b) rows,
           sql_update (where_actualizar b) (set_campos now b) rows)"
    by (simp add: update_campos_def assms)
  show ?thesis
  proof (cases "truthy_id (b_id_sensor b) \<and> truthy_str (b_dev_eui b)")
    case True
    with ti te have t: "truthy (js_prop req_body ''id_sensor'')" "truthy (js_prop req_body ''dev_eui'')"
      by simp_all
    have v: "vincular_dev_eui my (js_prop req_body ''dev_eui'') (js_prop req_body ''id_sensor'') rows1
        = update_dev_eui (the (b_dev_eui b)) (the (b_id_sensor b)) rows1" for rows1
      by (rule vincular_dev_eui_decoded [OF dec(9) dec(10) t])
    from True have c: "(truthy_id (b_id_sensor b) \<and> truthy_str (b_dev_eui b)) = True" by simp
    show ?thesis
      unfolding put_actualizar_try_def actualizar_try_def Let_def up ti te c v
      by (simp split: option.split sum.split)
  next
    case False
    then have c: "(truthy_id (b_id_sensor b) \<and> truthy_str (b_dev_eui b)) = False" by simp
    show ?thesis
      unfolding put_actualizar_try_def actualizar_try_def Let_def up ti te c
      by (simp split: option.split sum.split)
  qed
qed

lemma put_actualizar_decoded:
  assumes "decode_actualizar req_body = Some b"
  shows "put_actualizar my f now req_body st = actualizar f now b st"
proof -
  note dec = decode_actualizar_Some [OF assms]
  have ti: "truthy (js_prop req_body ''id_sensor'') = truthy_id (b_id_sensor b)"
    by (rule campo_natural_truthy [OF dec(9)])
  have te: "truthy (js_prop req_body ''dev_eui'') = truthy_str (b_dev_eui b)"
    by (rule campo_texto_truthy [OF dec(10)])
  show ?thesis
    unfolding put_actualizar_def actualizar_def ti te put_actualizar_try_decoded [OF assms]
    using dec(1,2) by simp
qed

lemma put_actualizar_cases:
  assumes "put_actualizar my f now req_body (d, leased) = (r, d', l')"
  shows "(d' = d \<and> (\<forall>x. r = Some x \<longrightarrow> status x \<noteq> 200))
     \<or> (\<exists>n rows2. put_actualizar_try my f now req_body (sensores d) = Inr (n, rows2)
           \<and> d' = d\<lparr>sensores := rows2\<rparr>
           \<and> r = Some (json 200 [(''ok'', JBool True),
                                  (''affected'', JNum (Finite (of_nat n)))]))"
proof (cases "put_actualizar_try my f now req_body (sensores d)")
  case (Inl e)
  with assms show ?thesis
    unfolding put_actualizar_def Let_def
    by (auto simp: json_error_def json_def split: if_splits option.splits sum.splits)
next
  case (Inr p)
  obtain n rows2 where p: "p = (n, rows2)" by (cases p)
  with Inr assms show ?thesis
    unfolding put_actualizar_def Let_def
    by (auto simp: json_error_def json_def split: if_splits option.splits sum.splits)
qed

lemma put_actualizar_keeps_dev_eui:
  assumes "decode_actualizar req_body = Some b"
  shows "list_all2 (\<lambda>s s'.
       id_sensor s' = id_sensor s
       \<and> (dev_eui s \<noteq> None \<and> dev_eui s \<noteq> Some [] \<longrightarrow> dev_eui s' = dev_eui s))
     (sensores d) (sensores (fst (snd (put_actualizar my f now req_body (d, leased)))))"
proof -
  let ?G = "\<lambda>s. if truthy_id (b_id_sensor b) \<and> truthy_str (b_dev_eui b)
                   \<and> sin_dev_eui (the (b_id_sensor b)) s
                then (if where_actualizar b s then set_campos now b s else s)
                       \<lparr>dev_eui := b_dev_eui b\<rparr>
                else (if where_actualizar b s then set_campos now b s else s)"
  let ?R = "\<lambda>s s'.
       id_sensor s' = id_sensor s
       \<and> (dev_eui s \<noteq> None \<and> dev_eui s \<noteq> Some [] \<longrightarrow> dev_eui s' = dev_eui s)"
  have G: "?R s (?G s)" for s
    by (auto simp: set_campos_keeps sin_dev_eui_def truthy_id_def)
  have eq: "put_actualizar my f now req_body (d, leased) = actualizar f now b (d, leased)"
    by (rule put_actualizar_decoded [OF assms])
  from actualizar_rows [of f now b d leased]
  have "list_all2 ?R (sensores d) (sensores (fst (snd (actualizar f now b (d, leased)))))"
  proof
    assume "sensores (fst (snd (actualizar f now b (d, leased)))) = sensores d
      \<and> (\<forall>x. fst (actualizar f now b (d, leased)) = Some x \<longrightarrow> status x \<noteq> 200)"
    then show ?thesis by (simp add: list_all2_same)
  next
    assume m: "sensores (fst (snd (actualizar f now b (d, leased)))) = map ?G (sensores d)"
    have "list_all2 ?R (sensores d) (map ?G (sensores d))"
      unfolding list_all2_map2 list_all2_same by (intro ballI G)
    with m show ?thesis by simp
  qed
  then show ?thesis unfolding eq .
qed

text \<open>
  C2. The claim is that the update path never overwrites a populated EUI. The back-link
  has the guard that says so, and on a body whose fields are of the types of the
  columns no populated EUI changes (\<open>put_actualizar_keeps_dev_eui\<close>). The first UPDATE
  has no such guard: a request for sensor 1, whose EUI is \<^verbatim>\<open>AABB\<close>, with the
  threshold \<^verbatim>\<open>{"id_sensor": 1, "dev_eui": "HACK"}\<close> has the driver write
  \<^verbatim>\<open>umbral_ith = `id_sensor` = 1, `dev_eui` = 'HACK'\<close> into the statement; the handler
  answers 200 and the sensor has the EUI \<^verbatim>\<open>HACK\<close>, whatever the server does with the
  statements the model leaves to it.
\<close>

theorem put_actualizar_overwrites_dev_eui:
  "truthy (js_prop cuerpo_umbral_objeto ''id_sensor'')
   \<and> truthy (js_prop cuerpo_umbral_objeto ''dev_eui'')
   \<and> map id_sensor (sensores store2) = [1, 2, 3]
   \<and> map dev_eui (sensores store2) = [Some ''AABB'', Some ''0C'', None]
   \<and> fst (put_actualizar my no_faults now cuerpo_umbral_objeto (store2, 0)) =
       Some (json 200 [(''ok'', JBool True), (''affected'', JNum (Finite 1))])
   \<and> map id_sensor
       (sensores (fst (snd (put_actualizar my no_faults now cuerpo_umbral_objeto (store2, 0)))))
       = [1, 2, 3]
   \<and> map dev_eui
       (sensores (fst (snd (put_actualizar my no_faults now cuerpo_umbral_objeto (store2, 0)))))
       = [Some ''HACK'', Some ''0C'', None]
   \<and> map umbral_ith
       (sensores (fst (snd (put_actualizar my no_faults now cuerpo_umbral_objeto (store2, 0)))))
       = [Some 1, None, None]"
  by code_simp

section \<open>Merge-patch semantics\<close>

lemma put_actualizar_por_dev_eui_rows:
  assumes dec: "decode_campos req_body = Some b"
  shows "snd (put_actualizar_por_dev_eui es my f now req_body d) = d
   \<and> status (fst (put_actualizar_por_dev_eui es my f now req_body d)) \<noteq> 200
   \<or> (\<exists>s0 str. s0 \<in> set (sensores d) \<and> dev_eui s0 \<noteq> None
        \<and> js_String es (js_prop req_body ''dev_eui'') = Some str
        \<and> sql_UPPER my (sql_TRIM (the (dev_eui s0))) = toUpperCase es (js_trim str)
        \<and> sensores (snd (put_actualizar_por_dev_eui es my f now req_body d)) =
            map (\<lambda>s. if id_sensor s = id_sensor s0 then set_campos_por_dev_eui now b s else s)
              (sensores d))"
proof (cases "js_String es (js_prop req_body ''dev_eui'')")
  case None
  then show ?thesis
    by (simp add: put_actualizar_por_dev_eui_def json_error_def json_def)
next
  case (Some str)
  have up: "update_por_dev_eui my now req_body i rows =
      Inr (sql_update (\<lambda>s. id_sensor s = i) (set_campos_por_dev_eui now b) rows)" for i rows
    by (simp add: update_por_dev_eui_def dec)
  show ?thesis
  proof (cases "find (\<lambda>r. snd r = toUpperCase es (js_trim str)) (select_eui my d)")
    case None
    then show ?thesis
      by (simp add: put_actualizar_por_dev_eui_def Let_def json_error_def json_def Some
          split: option.split)
  next
    case found: (Some row)
    then have "row \<in> set (select_eui my d)"
      and eq: "snd row = toUpperCase es (js_trim str)"
      by (auto simp: find_Some_iff)
    then obtain s0 :: sensor where s0: "s0 \<in> set (sensores d)" "dev_eui s0 \<noteq> None"
      "row = (id_sensor s0, sql_UPPER my (sql_TRIM (the (dev_eui s0))))"
      by (auto simp: select_eui_def)
    from s0(3) eq have m: "sql_UPPER my (sql_TRIM (the (dev_eui s0))) = toUpperCase es (js_trim str)"
      and i: "fst row = id_sensor s0" by simp_all
    show ?thesis
    proof (cases "req_body \<noteq> JUndefined \<and> req_body \<noteq> JNull
                  \<and> truthy (js_prop req_body ''dev_eui'') \<and> f 0 = None \<and> f 1 = None")
      case False
      then show ?thesis
        by (auto simp: put_actualizar_por_dev_eui_def Let_def json_error_def json_def Some found
            split: option.split)
    next
      case True
      then have "sensores (snd (put_actualizar_por_dev_eui es my f now req_body d)) =
            map (\<lambda>s. if id_sensor s = id_sensor s0 then set_campos_por_dev_eui now b s else s)
              (sensores d)"
        by (simp add: put_actualizar_por_dev_eui_def Let_def Some found up i sql_update_def)
      with s0(1,2) m Some show ?thesis by blast
    qed
  qed
qed

text \<open>
  C4, as stated, fails on the variant that selects by EUI: it binds the threshold through
  \<^verbatim>\<open>COALESCE\<close>, so a request without a threshold leaves the stored threshold (72) as
  it is, instead of setting it to null.
\<close>

theorem actualizar_por_dev_eui_keeps_umbral:
  "status (fst (put_actualizar_por_dev_eui es0 my0 no_faults 9 cuerpo_manual_aabb store2)) = 200
   \<and> js_prop cuerpo_manual_aabb ''umbral_ith'' = JUndefined
   \<and> umbral_ith (hd (sensores store2)) = Some 72
   \<and> umbral_ith
       (hd (sensores (snd (put_actualizar_por_dev_eui es0 my0 no_faults 9 cuerpo_manual_aabb store2))))
       = Some 72
   \<and> modo
       (hd (sensores (snd (put_actualizar_por_dev_eui es0 my0 no_faults 9 cuerpo_manual_aabb store2))))
       = Some ''manual''"
  by code_simp

text \<open>
  C4, amended. On a request whose fields are of the types of their columns (absent,
  \<^verbatim>\<open>null\<close>, a string for model, area, zone, room and mode, an integer for the
  threshold), in both variants of the metadata update a field among model, area, zone,
  room and mode that is absent or null leaves its column as it is, a field that is
  supplied replaces it, and the update timestamp of every matched row is refreshed; rows
  that are not matched keep these columns. In the transactional variant the threshold
  column of a matched row is set to the supplied value, null included, on every call
  that commits. In the variant that selects by EUI a null threshold leaves the column as
  it is, and so does an empty string for model, area, room and mode.
\<close>

theorem actualizar_merge_patch:
  "(decode_actualizar req_body = Some b \<longrightarrow>
      campo_texto (js_prop req_body ''modelo'') = Some (b_modelo b)
      \<and> campo_texto (js_prop req_body ''area'') = Some (b_area b)
      \<and> campo_texto (js_prop req_body ''zona'') = Some (b_zona b)
      \<and> campo_texto (js_prop req_body ''sala'') = Some (b_sala b)
      \<and> campo_texto (js_prop req_body ''modo'') = Some (b_modo b)
      \<and> campo_entero (js_prop req_body ''umbral_ith'') = Some (b_umbral_ith b)
      \<and> campo_natural (js_prop req_body ''id_sensor'') = Some (b_id_sensor b)
      \<and> campo_texto (js_prop req_body ''dev_eui'') = Some (b_dev_eui b))
   \<and> (decode_actualizar req_body = Some b
      \<and> (\<exists>x. fst (put_actualizar my f now req_body (d, leased)) = Some x \<and> status x = 200) \<longrightarrow>
      list_all2 (\<lambda>s s'.
         if where_actualizar b s then
           modelo s' = (case b_modelo b of None \<Rightarrow> modelo s | Some v \<Rightarrow> Some v)
           \<and> area s' = (case b_area b of None \<Rightarrow> area s | Some v \<Rightarrow> Some v)
           \<and> zona s' = (case b_zona b of None \<Rightarrow> zona s | Some v \<Rightarrow> Some v)
           \<and> sala s' = (case b_sala b of None \<Rightarrow> sala s | Some v \<Rightarrow> Some v)
           \<and> modo s' = (case b_modo b of None \<Rightarrow> modo s | Some v \<Rightarrow> Some v)
           \<and> umbral_ith s' = b_umbral_ith b
           \<and> updated_at s' = Some now
         else modelo s' = modelo s \<and> area s' = area s \<and> zona s' = zona s
           \<and> sala s' = sala s \<and> modo s' = modo s \<and> umbral_ith s' = umbral_ith s
           \<and> updated_at s' = updated_at s)
        (sensores d) (sensores (fst (snd (put_actualizar my f now req_body (d, leased))))))
   \<and> (decode_campos req_body = Some c \<longrightarrow>
      campo_texto (js_prop req_body ''modelo'') = Some (b_modelo c)
      \<and> campo_texto (js_prop req_body ''area'') = Some (b_area c)
      \<and> campo_texto (js_prop req_body ''zona'') = Some (b_zona c)
      \<and> campo_texto (js_prop req_body ''sala'') = Some (b_sala c)
      \<and> campo_texto (js_prop req_body ''modo'') = Some (b_modo c)
      \<and> campo_entero (js_prop req_body ''umbral_ith'') = Some (b_umbral_ith c))
   \<and> (decode_campos req_body = Some c
      \<and> status (fst (put_actualizar_por_dev_eui es my f now req_body d)) = 200 \<longrightarrow>
      (\<exists>s0 str. s0 \<in> set (sensores d) \<and> dev_eui s0 \<noteq> None
         \<and> js_String es (js_prop req_body ''dev_eui'') = Some str
         \<and> sql_UPPER my (sql_TRIM (the (dev_eui s0))) = toUpperCase es (js_trim str)
         \<and> list_all2 (\<lambda>s s'.
             if id_sensor s = id_sensor s0 then
               modelo s' = (if b_modelo c = None \<or> b_modelo c = Some [] then modelo s else b_modelo c)
               \<and> area s' = (if b_area c = None \<or> b_area c = Some [] then area s else b_area c)
               \<and> zona s' = (if b_zona c = None then zona s else b_zona c)
               \<and> sala s' = (if b_sala c = None \<or> b_sala c = Some [] then sala s else b_sala c)
               \<and> modo s' = (if b_modo c = None \<or> b_modo c = Some [] then modo s else b_modo c)
               \<and> umbral_ith s' = (if b_umbral_ith c = None then umbral_ith s else b_umbral_ith c)
               \<and> updated_at s' = Some now
             else s' = s)
            (sensores d) (sensores (snd (put_actualizar_por_dev_eui es my f now req_body d)))))"
proof (intro conjI impI)
  assume dec: "decode_actualizar req_body = Some b"
  note d = decode_actualizar_Some [OF dec]
  from d(3) show "campo_texto (js_prop req_body ''modelo'') = Some (b_modelo b)" .
  from d(4) show "campo_texto (js_prop req_body ''area'') = Some (b_area b)" .
  from d(5) show "campo_texto (js_prop req_body ''zona'') = Some (b_zona b)" .
  from d(6) show "campo_texto (js_prop req_body ''sala'') = Some (b_sala b)" .
  from d(7) show "campo_texto (js_prop req_body ''modo'') = Some (b_modo b)" .
  from d(8) show "campo_entero (js_prop req_body ''umbral_ith'') = Some (b_umbral_ith b)" .
  from d(9) show "campo_natural (js_prop req_body ''id_sensor'') = Some (b_id_sensor b)" .
  from d(10) show "campo_texto (js_prop req_body ''dev_eui'') = Some (b_dev_eui b)" .
next
  let ?G = "\<lambda>s. if truthy_id (b_id_sensor b) \<and> truthy_str (b_dev_eui b)
                   \<and> sin_dev_eui (the (b_id_sensor b)) s
                then (if where_actualizar b s then set_campos now b s else s)
                       \<lparr>dev_eui := b_dev_eui b\<rparr>
                else (if where_actualizar b s then set_campos now b s else s)"
  let ?R = "\<lambda>s s'.
         if where_actualizar b s then
           modelo s' = (case b_modelo b of None \<Rightarrow> modelo s | Some v \<Rightarrow> Some v)
           \<and> area s' = (case b_area b of None \<Rightarrow> area s | Some v \<Rightarrow> Some v)
           \<and> zona s' = (case b_zona b of None \<Rightarrow> zona s | Some v \<Rightarrow> Some v)
           \<and> sala s' = (case b_sala b of None \<Rightarrow> sala s | Some v \<Rightarrow> Some v)
           \<and> modo s' = (case b_modo b of None \<Rightarrow> modo s | Some v \<Rightarrow> Some v)
           \<and> umbral_ith s' = b_umbral_ith b
           \<and> updated_at s' = Some now
         else modelo s' = modelo s \<and> area s' = area s \<and> zona s' = zona s
           \<and> sala s' = sala s \<and> modo s' = modo s \<and> umbral_ith s' = umbral_ith s
           \<and> updated_at s' = updated_at s"
  assume a: "decode_actualizar req_body = Some b
      \<and> (\<exists>x. fst (put_actualizar my f now req_body (d, leased)) = Some x \<and> status x = 200)"
  then have dec: "decode_actualizar req_body = Some b" ..
  have eq: "put_actualizar my f now req_body (d, leased) = actualizar f now b (d, leased)"
    by (rule put_actualizar_decoded [OF dec])
  from a have ok: "\<exists>x. fst (actualizar f now b (d, leased)) = Some x \<and> status x = 200"
    unfolding eq ..
  have G: "?R s (?G s)" for s
    by (simp add: set_campos_def coalesce_def)
  from ok actualizar_rows [of f now b d leased]
  have m: "sensores (fst (snd (actualizar f now b (d, leased)))) = map ?G (sensores d)"
    by auto
  have "list_all2 ?R (sensores d) (map ?G (sensores d))"
    unfolding list_all2_map2 list_all2_same by (intro ballI G)
  with m show "list_all2 ?R (sensores d)
      (sensores (fst (snd (put_actualizar my f now req_body (d, leased)))))"
    unfolding eq by simp
next
  assume dec: "decode_campos req_body = Some c"
  note d = decode_campos_Some [OF dec]
  from d(3) show "campo_texto (js_prop req_body ''modelo'') = Some (b_modelo c)" .
  from d(4) show "campo_texto (js_prop req_body ''area'') = Some (b_area c)" .
  from d(5) show "campo_texto (js_prop req_body ''zona'') = Some (b_zona c)" .
  from d(6) show "campo_texto (js_prop req_body ''sala'') = Some (b_sala c)" .
  from d(7) show "campo_texto (js_prop req_body ''modo'') = Some (b_modo c)" .
  from d(8) show "campo_entero (js_prop req_body ''umbral_ith'') = Some (b_umbral_ith c)" .
next
  assume a: "decode_campos req_body = Some c
      \<and> status (fst (put_actualizar_por_dev_eui es my f now req_body d)) = 200"
  then have dec: "decode_campos req_body = Some c"
    and ok: "status (fst (put_actualizar_por_dev_eui es my f now req_body d)) = 200"
    by simp_all
  from ok put_actualizar_por_dev_eui_rows [OF dec, of es my f now d] obtain s0 :: sensor and str where
    s0: "s0 \<in> set (sensores d)" "dev_eui s0 \<noteq> None"
      "js_String es (js_prop req_body ''dev_eui'') = Some str"
      "sql_UPPER my (sql_TRIM (the (dev_eui s0))) = toUpperCase es (js_trim str)"
    and m: "sensores (snd (put_actualizar_por_dev_eui es my f now req_body d)) =
            map (\<lambda>s. if id_sensor s = id_sensor s0 then set_campos_por_dev_eui now c s else s)
              (sensores d)"
    by blast
  let ?H = "\<lambda>s. if id_sensor s = id_sensor s0 then set_campos_por_dev_eui now c s else s"
  let ?Q = "\<lambda>s s'.
             if id_sensor s = id_sensor s0 then
               modelo s' = (if b_modelo c = None \<or> b_modelo c = Some [] then modelo s else b_modelo c)
               \<and> area s' = (if b_area c = None \<or> b_area c = Some [] then area s else b_area c)
               \<and> zona s' = (if b_zona c = None then zona s else b_zona c)
               \<and> sala s' = (if b_sala c = None \<or> b_sala c = Some [] then sala s else b_sala c)
               \<and> modo s' = (if b_modo c = None \<or> b_modo c = Some [] then modo s else b_modo c)
               \<and> umbral_ith s' = (if b_umbral_ith c = None then umbral_ith s else b_umbral_ith c)
               \<and> updated_at s' = Some now
             else s' = s"
  have H: "?Q s (?H s)" for s
    by (auto simp: set_campos_por_dev_eui_def coalesce_def nullif_empty_def split: option.splits)
  have "list_all2 ?Q (sensores d) (map ?H (sensores d))"
    unfolding list_all2_map2 list_all2_same by (intro ballI H)
  with m have "list_all2 ?Q (sensores d)
      (sensores (snd (put_actualizar_por_dev_eui es my f now req_body d)))"
    by simp
  with s0 show "\<exists>s0 str. s0 \<in> set (sensores d) \<and> dev_eui s0 \<noteq> None
         \<and> js_String es (js_prop req_body ''dev_eui'') = Some str
         \<and> sql_UPPER my (sql_TRIM (the (dev_eui s0))) = toUpperCase es (js_trim str)
         \<and> list_all2 (\<lambda>s s'.
             if id_sensor s = id_sensor s0 then
               modelo s' = (if b_modelo c = None \<or> b_modelo c = Some [] then modelo s else b_modelo c)
               \<and> area s' = (if b_area c = None \<or> b_area c = Some [] then area s else b_area c)
               \<and> zona s' = (if b_zona c = None then zona s else b_zona c)
               \<and> sala s' = (if b_sala c = None \<or> b_sala c = Some [] then sala s else b_sala c)
               \<and> modo s' = (if b_modo c = None \<or> b_modo c = Some [] then modo s else b_modo c)
               \<and> umbral_ith s' = (if b_umbral_ith c = None then umbral_ith s else b_umbral_ith c)
               \<and> updated_at s' = Some now
             else s' = s)
            (sensores d) (sensores (snd (put_actualizar_por_dev_eui es my f now req_body d)))"
    by blast
qed

theorem actualizar_merge_patch_witness:
  "decode_actualizar cuerpo_manual1 = Some manual1
   \<and> js_prop cuerpo_manual1 ''umbral_ith'' = JUndefined
   \<and> umbral_ith (sensores store2 ! 0) = Some 72
   \<and> modelo (sensores (fst (snd (put_actualizar my0 no_faults 7 cuerpo_manual1 (store2, 0)))) ! 0)
       = Some ''MKR1310''
   \<and> modo (sensores (fst (snd (put_actualizar my0 no_faults 7 cuerpo_manual1 (store2, 0)))) ! 0)
       = Some ''manual''
   \<and> umbral_ith (sensores (fst (snd (put_actualizar my0 no_faults 7 cuerpo_manual1 (store2, 0)))) ! 0)
       = None
   \<and> updated_at (sensores (fst (snd (put_actualizar my0 no_faults 7 cuerpo_manual1 (store2, 0)))) ! 0)
       = Some 7
   \<and> decode_campos cuerpo_manual_aabb = Some (manual1\<lparr>b_id_sensor := None\<rparr>)
   \<and> status (fst (put_actualizar_por_dev_eui es0 my0 no_faults 9 cuerpo_manual_aabb store2)) = 200
   \<and> (\<exists>s0. s0 \<in> set (sensores store2)
        \<and> list_all2 (\<lambda>s s'. id_sensor s = id_sensor s0 \<longrightarrow>
              umbral_ith s' = umbral_ith s \<and> modo s' = Some ''manual'')
            (sensores store2)
            (sensores (snd (put_actualizar_por_dev_eui es0 my0 no_faults 9 cuerpo_manual_aabb store2))))"
proof -
  let ?d' = "fst (snd (put_actualizar my0 no_faults 7 cuerpo_manual1 (store2, 0)))"
  let ?e' = "snd (put_actualizar_por_dev_eui es0 my0 no_faults 9 cuerpo_manual_aabb store2)"
  let ?c = "manual1\<lparr>b_id_sensor := None\<rparr>"
  have dec: "decode_actualizar cuerpo_manual1 = Some manual1" by code_simp
  have und: "js_prop cuerpo_manual1 ''umbral_ith'' = JUndefined" by code_simp
  have r: "fst (put_actualizar my0 no_faults 7 cuerpo_manual1 (store2, 0)) =
             Some (json 200 [(''ok'', JBool True), (''affected'', JNum (Finite 1))])"
    by code_simp
  have "status (json 200 [(''ok'', JBool True), (''affected'', JNum (Finite 1))]) = 200"
    by (simp add: json_def)
  with r have ok: "\<exists>x. fst (put_actualizar my0 no_faults 7 cuerpo_manual1 (store2, 0)) = Some x
      \<and> status x = 200"
    by blast
  have dec2: "decode_campos cuerpo_manual_aabb = Some ?c" by code_simp
  have ok2: "status (fst (put_actualizar_por_dev_eui es0 my0 no_faults 9 cuerpo_manual_aabb store2)) = 200"
    by code_simp
  have len: "0 < length (sensores store2)" by code_simp
  have wh: "where_actualizar manual1 (sensores store2 ! 0)" by code_simp
  have old: "umbral_ith (sensores store2 ! 0) = Some 72"
    "modelo (sensores store2 ! 0) = Some ''MKR1310''"
    by code_simp+
  have b: "b_modelo manual1 = None" "b_modo manual1 = Some ''manual''" "b_umbral_ith manual1 = None"
    by (simp_all add: manual1_def solo_def)
  have c: "b_modo ?c = Some ''manual''" "b_umbral_ith ?c = None"
    by (simp_all add: manual1_def solo_def)
  note inst = actualizar_merge_patch
    [of cuerpo_manual1 manual1 my0 no_faults 7 store2 0 ?c es0]
  note inst2 = actualizar_merge_patch
    [of cuerpo_manual_aabb manual1 my0 no_faults 9 store2 0 ?c es0]
  from inst dec ok
  have "list_all2 (\<lambda>s s'.
         if where_actualizar manual1 s then
           modelo s' = (case b_modelo manual1 of None \<Rightarrow> modelo s | Some v \<Rightarrow> Some v)
           \<and> area s' = (case b_area manual1 of None \<Rightarrow> area s | Some v \<Rightarrow> Some v)
           \<and> zona s' = (case b_zona manual1 of None \<Rightarrow> zona s | Some v \<Rightarrow> Some v)
           \<and> sala s' = (case b_sala manual1 of None \<Rightarrow> sala s | Some v \<Rightarrow> Some v)
           \<and> modo s' = (case b_modo manual1 of None \<Rightarrow> modo s | Some v \<Rightarrow> Some v)
           \<and> umbral_ith s' = b_umbral_ith manual1
           \<and> updated_at s' = Some 7
         else modelo s' = modelo s \<and> area s' = area s \<and> zona s' = zona s
           \<and> sala s' = sala s \<and> modo s' = modo s \<and> umbral_ith s' = umbral_ith s
           \<and> updated_at s' = updated_at s)
        (sensores store2) (sensores ?d')"
    by blast
  from list_all2_nthD [OF this len] wh b old
  have first: "modelo (sensores ?d' ! 0) = Some ''MKR1310''" "modo (sensores ?d' ! 0) = Some ''manual''"
    "umbral_ith (sensores ?d' ! 0) = None" "updated_at (sensores ?d' ! 0) = Some 7"
    by simp_all
  from inst2 dec2 ok2 obtain s0 :: sensor where s0: "s0 \<in> set (sensores store2)"
    and l: "list_all2 (\<lambda>s s'.
             if id_sensor s = id_sensor s0 then
               modelo s' = (if b_modelo ?c = None \<or> b_modelo ?c = Some [] then modelo s else b_modelo ?c)
               \<and> area s' = (if b_area ?c = None \<or> b_area ?c = Some [] then area s else b_area ?c)
               \<and> zona s' = (if b_zona ?c = None then zona s else b_zona ?c)
               \<and> sala s' = (if b_sala ?c = None \<or> b_sala ?c = Some [] then sala s else b_sala ?c)
               \<and> modo s' = (if b_modo ?c = None \<or> b_modo ?c = Some [] then modo s else b_modo ?c)
               \<and> umbral_ith s' = (if b_umbral_ith ?c = None then umbral_ith s else b_umbral_ith ?c)
               \<and> updated_at s' = Some 9
             else s' = s)
            (sensores store2) (sensores ?e')"
    by blast
  have "list_all2 (\<lambda>s s'. id_sensor s = id_sensor s0 \<longrightarrow>
              umbral_ith s' = umbral_ith s \<and> modo s' = Some ''manual'')
            (sensores store2) (sensores ?e')"
    by (rule list_all2_mono [OF l]) (simp add: c split: if_splits)
  with s0 have second: "\<exists>s0. s0 \<in> set (sensores store2)
        \<and> list_all2 (\<lambda>s s'. id_sensor s = id_sensor s0 \<longrightarrow>
              umbral_ith s' = umbral_ith s \<and> modo s' = Some ''manual'')
            (sensores store2) (sensores ?e')"
    by blast
  from dec und old(1) first dec2 ok2 second show ?thesis by blast
qed

section \<open>Atomicity of the metadata update\<close>







end
